theory Spec2Isabelle
  imports Main
begin

section \<open>Python string primitives used by the converters\<close>

text \<open>
  \<^verbatim>\<open>str.replace(old, new)\<close>: scan left to right, replace every non-overlapping
  occurrence of \<open>old\<close>. With an empty \<open>old\<close> Python inserts \<open>new\<close> before every
  character and at the end.
\<close>

function replace :: "string \<Rightarrow> string \<Rightarrow> string \<Rightarrow> string" where
  "replace old new [] = (if old = [] then new else [])"
| "replace old new (c # cs) =
     (if old = [] then new @ concat (map (\<lambda>x. x # new) (c # cs))
      else if take (length old) (c # cs) = old
           then new @ replace old new (drop (length old) (c # cs))
           else c # replace old new cs)"
  by pat_completeness auto
termination
  by (relation "measure (\<lambda>(old, new, s). length s)") (auto simp: neq_Nil_conv)


text \<open>Decimal text of a natural number, as an f-string shows an \<^verbatim>\<open>int\<close>.\<close>

function str_nat :: "nat \<Rightarrow> string" where
  "str_nat n =
     (if n < 10 then [char_of (48 + n)]
      else str_nat (n div 10) @ [char_of (48 + n mod 10)])"
  by pat_completeness auto
termination
  by (relation "measure id") auto


section \<open>The tolerant timestamp parser\<close>

text \<open>
  Failures are values. \<open>exn\<close> stands for the instances of Python's \<^verbatim>\<open>Exception\<close>
  class that the scripts' handlers catch; the text is the message that
  \<^verbatim>\<open>print(f"... {e}")\<close> shows.
\<close>

datatype exn = Exception string | RecursionError

text \<open>
  The function objects that the attribute \<^verbatim>\<open>from_ISO8601\<close> of an openpyxl module can be
  bound to: the routine shipped with the library, or the scripts'
  \<^verbatim>\<open>patched_from_ISO8601\<close>.
\<close>

datatype fn = Lib_from_ISO8601 | Patched_from_ISO8601

text \<open>
  The two module attributes the scripts read and assign:
  \<^verbatim>\<open>openpyxl.utils.datetime.from_ISO8601\<close> and
  \<^verbatim>\<open>openpyxl.descriptors.base.from_ISO8601\<close>.
\<close>

record modules =
  utils_datetime :: fn
  descriptors_base :: fn

text \<open>
  The expression bound to \<^verbatim>\<open>fixed\<close> in \<^verbatim>\<open>patched_from_ISO8601\<close>: three
  \<^verbatim>\<open>replace\<close> calls, in this order.
\<close>

definition fixed :: "string \<Rightarrow> string" where
  "fixed formatted_string =
     replace ''T '' ''T0'' (replace ''- '' ''-0'' (replace ''  '' '' '' formatted_string))"


text \<open>
  \<^verbatim>\<open>patched_from_ISO8601\<close> (both tolerant scripts have the same body on a \<^verbatim>\<open>str\<close>
  argument). The import inside the body reads \<^verbatim>\<open>openpyxl.utils.datetime.from_ISO8601\<close>
  when the function runs, so the callee is whatever the attribute holds then.
  \<open>lib\<close> is the library's own routine and \<open>now\<close> the clock value that
  \<^verbatim>\<open>datetime.now()\<close> returns in the handler. \<open>depth\<close> counts the Python frames still
  available below the interpreter's recursion limit: a call with none left raises
  \<^verbatim>\<open>RecursionError\<close> in the caller, where the \<^verbatim>\<open>except\<close> clause catches it.
\<close>

function patched_from_ISO8601 ::
    "nat \<Rightarrow> modules \<Rightarrow> (string \<Rightarrow> exn + 'dt) \<Rightarrow> 'dt \<Rightarrow> string \<Rightarrow> exn + 'dt"
  and call_fn ::
    "nat \<Rightarrow> modules \<Rightarrow> (string \<Rightarrow> exn + 'dt) \<Rightarrow> 'dt \<Rightarrow> fn \<Rightarrow> string \<Rightarrow> exn + 'dt"
where
  "patched_from_ISO8601 depth m lib now formatted_string =
     (case call_fn depth m lib now (utils_datetime m) (fixed formatted_string) of
        Inr d \<Rightarrow> Inr d
      | Inl e \<Rightarrow> Inr now)"
| "call_fn 0 m lib now f s = Inl RecursionError"
| "call_fn (Suc depth) m lib now Lib_from_ISO8601 s = lib s"
| "call_fn (Suc depth) m lib now Patched_from_ISO8601 s =
     patched_from_ISO8601 depth m lib now s"
  by pat_completeness auto
termination
  by (relation "measure (\<lambda>x. case x of
          Inl (depth, m, lib, now, s) \<Rightarrow> 2 * depth + 1
        | Inr (depth, m, lib, now, f, s) \<Rightarrow> 2 * depth)") auto


section \<open>Cells, rows and the CSV writer\<close>

text \<open>
  A cell value as \<^verbatim>\<open>iter_rows(values_only=True)\<close> yields it: \<^verbatim>\<open>None\<close> for a missing
  cell, a \<^verbatim>\<open>str\<close>, or another scalar (number, boolean, date or time) kept abstract in
  \<open>'v\<close>; \<open>py_str\<close> is Python's \<^verbatim>\<open>str()\<close> on those scalars.
\<close>

datatype 'v cell = PyNone | PyStr string | PyScalar 'v

text \<open>\<^verbatim>\<open>str(cell)\<close>; on \<^verbatim>\<open>None\<close> it is the text \<^verbatim>\<open>None\<close>.\<close>

fun str :: "('v \<Rightarrow> string) \<Rightarrow> 'v cell \<Rightarrow> string" where
  "str py_str PyNone = ''None''"
| "str py_str (PyStr s) = s"
| "str py_str (PyScalar v) = py_str v"

text \<open>
  \<^verbatim>\<open>csv.writer\<close> with the default dialect: delimiter comma, quote character \<open>0x22\<close>,
  doubled quotes, \<^verbatim>\<open>QUOTE_MINIMAL\<close>, line terminator CR LF. The writer turns a field
  that is \<^verbatim>\<open>None\<close> into the empty text, leaves a \<^verbatim>\<open>str\<close> as it is and applies
  \<^verbatim>\<open>str()\<close> to anything else.
\<close>

definition quotechar :: char where
  "quotechar = CHR 0x22"

definition CR :: char where
  "CR = CHR 0x0D"

definition LF :: char where
  "LF = CHR 0x0A"

definition delimiter :: char where
  "delimiter = CHR '',''"

fun field_text :: "('v \<Rightarrow> string) \<Rightarrow> 'v cell \<Rightarrow> string" where
  "field_text py_str PyNone = []"
| "field_text py_str (PyStr s) = s"
| "field_text py_str (PyScalar v) = py_str v"

text \<open>A field is quoted when it holds the delimiter, the quote character, CR, LF
  or a character of the line terminator.\<close>

definition special :: "string \<Rightarrow> char \<Rightarrow> bool" where
  "special lineterminator c \<longleftrightarrow>
     c = delimiter \<or> c = quotechar \<or> c = CR \<or> c = LF \<or> c \<in> set lineterminator"

definition needs_quotes :: "string \<Rightarrow> string \<Rightarrow> bool" where
  "needs_quotes lineterminator s = list_ex (special lineterminator) s"

definition double_quotes :: "string \<Rightarrow> string" where
  "double_quotes s = concat (map (\<lambda>c. if c = quotechar then [quotechar, quotechar] else [c]) s)"

definition join_field :: "string \<Rightarrow> string \<Rightarrow> string" where
  "join_field lineterminator s =
     (if needs_quotes lineterminator s then quotechar # double_quotes s @ [quotechar] else s)"

fun join_fields :: "string \<Rightarrow> string list \<Rightarrow> string" where
  "join_fields lineterminator [] = []"
| "join_fields lineterminator [s] = join_field lineterminator s"
| "join_fields lineterminator (s # t # ss) =
     join_field lineterminator s @ delimiter # join_fields lineterminator (t # ss)"

text \<open>
  \<^verbatim>\<open>writer.writerow(fs)\<close>: the text appended to the file. A record whose only
  field is empty is written as a pair of quote characters, so that the line is not
  blank.
\<close>

definition writerow_lt :: "string \<Rightarrow> ('v \<Rightarrow> string) \<Rightarrow> 'v cell list \<Rightarrow> string" where
  "writerow_lt lineterminator py_str fs =
     (let texts = map (field_text py_str) fs
      in (if texts = [[]] then [quotechar, quotechar] else join_fields lineterminator texts)
         @ lineterminator)"

definition writerow :: "('v \<Rightarrow> string) \<Rightarrow> 'v cell list \<Rightarrow> string" where
  "writerow = writerow_lt [CR, LF]"

text \<open>The list each tolerant script hands to the writer for one worksheet row.\<close>

definition row_2025 :: "('v \<Rightarrow> string) \<Rightarrow> 'v cell list \<Rightarrow> 'v cell list" where
  "row_2025 py_str row = map (\<lambda>cell. if cell \<noteq> PyNone then PyStr (str py_str cell) else PyStr []) row"

definition row_xlsx :: "'v cell list \<Rightarrow> 'v cell list" where
  "row_xlsx row = map (\<lambda>cell. if cell = PyNone then PyStr [] else cell) row"


section \<open>Re-reading a CSV file\<close>

text \<open>
  \<^verbatim>\<open>csv.reader\<close> with the default dialect over a file opened with \<^verbatim>\<open>newline=''\<close>.
  The file yields lines ending at LF, at CR LF, or at a CR not followed by LF; the
  reader feeds each character of a line to its state machine and an end-of-line mark
  after the line. A record is complete when the mark leaves the machine in
  \<open>START_RECORD\<close>.

  The reader refuses to add a character to a field that has already reached the
  module's field size limit, \<^verbatim>\<open>csv.field_size_limit()\<close>: 131072 characters unless the
  caller changes it. \<open>limit\<close> is that setting; \<open>None\<close> stands for a limit raised above
  the length of any field (\<^verbatim>\<open>csv.field_size_limit(sys.maxsize)\<close>).
\<close>

datatype rstate =
  START_RECORD | START_FIELD | IN_FIELD | IN_QUOTED_FIELD | QUOTE_IN_QUOTED_FIELD | EAT_CRNL

datatype event = Ch char | EOL

definition field_size_limit :: nat where
  "field_size_limit = 131072"

fun full :: "nat option \<Rightarrow> string \<Rightarrow> bool" where
  "full None field = False"
| "full (Some n) field = (n \<le> length field)"

fun limit_text :: "nat option \<Rightarrow> string" where
  "limit_text None = []"
| "limit_text (Some n) = str_nat n"

definition add_char ::
    "nat option \<Rightarrow> rstate \<Rightarrow> string \<Rightarrow> string list \<Rightarrow> char
      \<Rightarrow> exn + rstate \<times> string \<times> string list" where
  "add_char limit mode field fs c =
     (if full limit field
      then Inl (Exception (''field larger than field limit ('' @ limit_text limit @ '')''))
      else Inr (mode, field @ [c], fs))"

definition start_field ::
    "nat option \<Rightarrow> string \<Rightarrow> string list \<Rightarrow> event \<Rightarrow> exn + rstate \<times> string \<times> string list" where
  "start_field limit field fs ev =
     (case ev of
        EOL \<Rightarrow> Inr (START_RECORD, [], fs @ [field])
      | Ch c \<Rightarrow>
          if c = LF \<or> c = CR then Inr (EAT_CRNL, [], fs @ [field])
          else if c = quotechar then Inr (IN_QUOTED_FIELD, field, fs)
          else if c = delimiter then Inr (START_FIELD, [], fs @ [field])
          else add_char limit IN_FIELD field fs c)"

definition process_char ::
    "nat option \<Rightarrow> rstate \<Rightarrow> string \<Rightarrow> string list \<Rightarrow> event
      \<Rightarrow> exn + rstate \<times> string \<times> string list" where
  "process_char limit mode field fs ev =
     (case mode of
        START_RECORD \<Rightarrow>
          (case ev of
             EOL \<Rightarrow> Inr (START_RECORD, field, fs)
           | Ch c \<Rightarrow>
               if c = LF \<or> c = CR then Inr (EAT_CRNL, field, fs)
               else start_field limit field fs ev)
      | START_FIELD \<Rightarrow> start_field limit field fs ev
      | IN_FIELD \<Rightarrow>
          (case ev of
             EOL \<Rightarrow> Inr (START_RECORD, [], fs @ [field])
           | Ch c \<Rightarrow>
               if c = LF \<or> c = CR then Inr (EAT_CRNL, [], fs @ [field])
               else if c = delimiter then Inr (START_FIELD, [], fs @ [field])
               else add_char limit IN_FIELD field fs c)
      | IN_QUOTED_FIELD \<Rightarrow>
          (case ev of
             EOL \<Rightarrow> Inr (IN_QUOTED_FIELD, field, fs)
           | Ch c \<Rightarrow>
               if c = quotechar then Inr (QUOTE_IN_QUOTED_FIELD, field, fs)
               else add_char limit IN_QUOTED_FIELD field fs c)
      | QUOTE_IN_QUOTED_FIELD \<Rightarrow>
          (case ev of
             EOL \<Rightarrow> Inr (START_RECORD, [], fs @ [field])
           | Ch c \<Rightarrow>
               if c = quotechar then add_char limit IN_QUOTED_FIELD field fs c
               else if c = delimiter then Inr (START_FIELD, [], fs @ [field])
               else if c = LF \<or> c = CR then Inr (EAT_CRNL, [], fs @ [field])
               else add_char limit IN_FIELD field fs c)
      | EAT_CRNL \<Rightarrow>
          (case ev of
             EOL \<Rightarrow> Inr (START_RECORD, field, fs)
           | Ch c \<Rightarrow>
               if c = LF \<or> c = CR then Inr (EAT_CRNL, field, fs)
               else Inl (Exception ''new-line character seen in unquoted field'')))"

text \<open>Whether the line ends after character \<open>c\<close>, given the rest of the file.\<close>

fun line_ends :: "char \<Rightarrow> string \<Rightarrow> bool" where
  "line_ends c [] = True"
| "line_ends c (d # ds) = (if c = CR then d \<noteq> LF else c = LF)"

fun emit :: "string list \<Rightarrow> exn + string list list \<Rightarrow> exn + string list list" where
  "emit r (Inl e) = Inl e"
| "emit r (Inr rs) = Inr (r # rs)"

fun reader_loop ::
    "nat option \<Rightarrow> rstate \<Rightarrow> string \<Rightarrow> string list \<Rightarrow> string \<Rightarrow> exn + string list list" where
  "reader_loop limit mode field fs [] =
     (if field = [] \<and> mode \<noteq> IN_QUOTED_FIELD then Inr [] else Inr [fs @ [field]])"
| "reader_loop limit mode field fs (c # cs) =
     (case process_char limit mode field fs (Ch c) of
        Inl e \<Rightarrow> Inl e
      | Inr (mode1, field1, fs1) \<Rightarrow>
          if line_ends c cs then
            (case process_char limit mode1 field1 fs1 EOL of
               Inl e \<Rightarrow> Inl e
             | Inr (mode2, field2, fs2) \<Rightarrow>
                 if mode2 = START_RECORD
                 then emit fs2 (reader_loop limit START_RECORD [] [] cs)
                 else reader_loop limit mode2 field2 fs2 cs)
          else reader_loop limit mode1 field1 fs1 cs)"

definition reader :: "nat option \<Rightarrow> string \<Rightarrow> exn + string list list" where
  "reader limit text = reader_loop limit START_RECORD [] [] text"

text \<open>Whether a field, or every field of a table, is within the limit.\<close>

fun within :: "nat option \<Rightarrow> string \<Rightarrow> bool" where
  "within None s = True"
| "within (Some n) s = (length s \<le> n)"

definition fits :: "nat option \<Rightarrow> string list list \<Rightarrow> bool" where
  "fits limit table = list_all (list_all (within limit)) table"


section \<open>The world outside the scripts\<close>

fun str_opt_nat :: "nat option \<Rightarrow> string" where
  "str_opt_nat None = ''None''"
| "str_opt_nat (Some n) = str_nat n"

fun str_exn :: "exn \<Rightarrow> string" where
  "str_exn (Exception msg) = msg"
| "str_exn RecursionError = ''maximum recursion depth exceeded''"

text \<open>
  What \<^verbatim>\<open>load_workbook(...).active\<close> gives the scripts: the sheet's title, its
  \<^verbatim>\<open>max_row\<close> and \<^verbatim>\<open>max_column\<close> (which a read-only sheet may not know), the rows
  that \<^verbatim>\<open>iter_rows(values_only=True)\<close> yields, and the exception, if any, that the
  iteration raises after the last of them.
\<close>

record 'v worksheet =
  title :: string
  max_row :: "nat option"
  max_column :: "nat option"
  rows :: "'v cell list list"
  iter_exn :: "exn option"

text \<open>
  The library and the file system, as far as the scripts see them. Loading depends
  on the module attributes, since the loader calls the parser bound there.
  \<open>open_w\<close> is \<^verbatim>\<open>open(path, "w", ...)\<close> (\<open>Some e\<close>: it raises), \<open>write_exn k\<close> the
  failure of the \<open>k\<close>-th \<^verbatim>\<open>writerow\<close>, counted from 1.
\<close>

record 'v world =
  load_workbook :: "modules \<Rightarrow> string \<Rightarrow> exn + 'v worksheet"
  open_w :: "string \<Rightarrow> exn option"
  write_exn :: "nat \<Rightarrow> exn option"
  py_str :: "'v \<Rightarrow> string"

text \<open>The observable effects of a run, in order.\<close>

datatype io =
    Print string
  | Traceback
  | Load_workbook string
  | Open_write string
  | Write string string
  | Read_excel string
  | To_csv string string

record outcome =
  exit_status :: nat
  trace :: "io list"
  modules_after :: modules

definition check_mark :: string where
  "check_mark = [CHR 0xE2, CHR 0x9C, CHR 0x85]"

definition cross_mark :: string where
  "cross_mark = [CHR 0xE2, CHR 0x9D, CHR 0x8C]"

definition sheet_line :: "'v worksheet \<Rightarrow> string" where
  "sheet_line ws =
     ''Sheet: '' @ title ws @ '', Rows: '' @ str_opt_nat (max_row ws)
       @ '', Cols: '' @ str_opt_nat (max_column ws)"

text \<open>The \<^verbatim>\<open>except Exception as e\<close> clause of the tolerant scripts.\<close>

definition handler :: "exn \<Rightarrow> io list" where
  "handler e = [Print (cross_mark @ '' Error: '' @ str_exn e), Traceback]"

section \<open>\<^verbatim>\<open>convert_fmr_xlsx.py\<close>\<close>

definition usage_xlsx :: string where
  "usage_xlsx = ''Usage: python3 scripts/convert_fmr_xlsx.py <input.xlsx> <output.csv>''"

definition patch_xlsx :: "modules \<Rightarrow> modules" where
  "patch_xlsx m =
     m\<lparr>utils_datetime := Patched_from_ISO8601, descriptors_base := Patched_from_ISO8601\<rparr>"

text \<open>The \<^verbatim>\<open>for idx, row in enumerate(..., start=1)\<close> loop.\<close>

fun loop_xlsx ::
    "'v world \<Rightarrow> string \<Rightarrow> nat \<Rightarrow> 'v cell list list \<Rightarrow> exn option \<Rightarrow> io list \<times> exn option" where
  "loop_xlsx w output_file idx [] end_exn = ([], end_exn)"
| "loop_xlsx w output_file idx (row # rest) end_exn =
     (case write_exn w idx of
        Some e \<Rightarrow> ([], Some e)
      | None \<Rightarrow>
          (let (evs, r) = loop_xlsx w output_file (Suc idx) rest end_exn
           in (Write output_file (writerow (py_str w) (row_xlsx row))
                 # (if idx mod 2000 = 0
                    then [Print (''  Processed '' @ str_nat idx @ '' rows...'')] else [])
                 @ evs, r)))"

text \<open>The body of the \<^verbatim>\<open>try\<close> block: its effects and the exception that ends it.\<close>

definition try_xlsx :: "'v world \<Rightarrow> modules \<Rightarrow> string \<Rightarrow> string \<Rightarrow> io list \<times> exn option" where
  "try_xlsx w m input_file output_file =
     (let start = [Print (''Reading '' @ input_file @ '' with openpyxl...''),
                   Load_workbook input_file]
      in case load_workbook w m input_file of
           Inl e \<Rightarrow> (start, Some e)
         | Inr ws \<Rightarrow>
             (case open_w w output_file of
                Some e \<Rightarrow> (start @ [Print (sheet_line ws)], Some e)
              | None \<Rightarrow>
                  (let (evs, r) = loop_xlsx w output_file 1 (rows ws) (iter_exn ws)
                   in (start @ [Print (sheet_line ws), Open_write output_file] @ evs
                         @ (if r = None
                            then [Print (check_mark @ '' Successfully converted to '' @ output_file)]
                            else []), r))))"

definition main_xlsx :: "'v world \<Rightarrow> modules \<Rightarrow> string list \<Rightarrow> outcome" where
  "main_xlsx w m argv =
     (if length argv \<noteq> 3
      then \<lparr>exit_status = 1, trace = [Print usage_xlsx], modules_after = m\<rparr>
      else
        (let input_file = argv ! 1;
             output_file = argv ! 2;
             original_from_ISO8601 = utils_datetime m;
             original_base_from_ISO8601 = descriptors_base m;
             m1 = patch_xlsx m;
             (evs, r) = try_xlsx w m1 input_file output_file;
             m2 = m1\<lparr>utils_datetime := original_from_ISO8601,
                     descriptors_base := original_base_from_ISO8601\<rparr>
         in case r of
              None \<Rightarrow> \<lparr>exit_status = 0, trace = evs, modules_after = m2\<rparr>
            | Some e \<Rightarrow> \<lparr>exit_status = 1, trace = evs @ handler e, modules_after = m2\<rparr>))"


section \<open>\<^verbatim>\<open>convert_fmr_2025.py\<close>\<close>

definition input_2025 :: string where
  "input_2025 = ''data/FY25_FMRs_revised.xlsx''"

definition output_2025 :: string where
  "output_2025 = ''data/fmr-2025.csv''"

text \<open>The module-level assignment: one attribute is rebound.\<close>

definition patch_2025 :: "modules \<Rightarrow> modules" where
  "patch_2025 m = m\<lparr>utils_datetime := Patched_from_ISO8601\<rparr>"

text \<open>\<^verbatim>\<open>writer.writerows(rows)\<close>, the records counted from \<open>k\<close>.\<close>

fun writerows ::
    "'v world \<Rightarrow> string \<Rightarrow> nat \<Rightarrow> 'v cell list list \<Rightarrow> io list \<times> exn option" where
  "writerows w output_file k [] = ([], None)"
| "writerows w output_file k (row # rest) =
     (case write_exn w k of
        Some e \<Rightarrow> ([], Some e)
      | None \<Rightarrow>
          (let (evs, r) = writerows w output_file (Suc k) rest
           in (Write output_file (writerow (py_str w) row) # evs, r)))"

definition try_2025 :: "'v world \<Rightarrow> modules \<Rightarrow> io list \<times> exn option" where
  "try_2025 w m =
     (let start = [Print (''Reading '' @ input_2025 @ ''...''), Load_workbook input_2025]
      in case load_workbook w m input_2025 of
           Inl e \<Rightarrow> (start, Some e)
         | Inr ws \<Rightarrow>
             (case iter_exn ws of
                Some e \<Rightarrow> (start @ [Print (sheet_line ws)], Some e)
              | None \<Rightarrow>
                  (let rendered = map (row_2025 (py_str w)) (rows ws);
                       announce = [Print (sheet_line ws),
                                   Print (''Writing '' @ str_nat (length rendered)
                                            @ '' rows to '' @ output_2025 @ ''...'')]
                   in case open_w w output_2025 of
                        Some e \<Rightarrow> (start @ announce, Some e)
                      | None \<Rightarrow>
                          (let (evs, r) = writerows w output_2025 1 rendered
                           in (start @ announce @ [Open_write output_2025] @ evs
                                 @ (if r = None
                                    then [Print (check_mark @ '' Successfully converted to ''
                                                   @ output_2025)]
                                    else []), r)))))"

text \<open>
  The whole script. \<open>original_from_ISO8601\<close> is the module-level variable: \<^verbatim>\<open>None\<close>
  at first, then the function found in \<^verbatim>\<open>openpyxl.utils.datetime\<close>. The \<^verbatim>\<open>finally\<close>
  clause tests its truth value, and a function object is true.
\<close>

definition main_2025 :: "'v world \<Rightarrow> modules \<Rightarrow> outcome" where
  "main_2025 w m =
     (let original_from_ISO8601 = Some (utils_datetime m);
          m1 = patch_2025 m;
          (evs, r) = try_2025 w m1;
          m2 = (case original_from_ISO8601 of
                  Some f \<Rightarrow> m1\<lparr>utils_datetime := f\<rparr>
                | None \<Rightarrow> m1)
      in case r of
           None \<Rightarrow> \<lparr>exit_status = 0, trace = evs, modules_after = m2\<rparr>
         | Some e \<Rightarrow> \<lparr>exit_status = 1, trace = evs @ handler e, modules_after = m2\<rparr>)"

section \<open>\<^verbatim>\<open>convert_excel.py\<close>\<close>

text \<open>
  A pandas \<^verbatim>\<open>DataFrame\<close>: the column labels and the data rows. \<^verbatim>\<open>len(df)\<close> counts the
  data rows only.
\<close>

record 'v dataframe =
  columns :: "string list"
  data :: "'v cell list list"

text \<open>
  pandas, as far as the script sees it. \<open>sheet_data\<close> is the first sheet's cells as
  the Excel engine hands them to \<^verbatim>\<open>read_excel\<close>, and \<open>frame_of\<close> the frame that
  \<^verbatim>\<open>read_excel\<close> builds from them with its defaults (the column labels it takes from
  the header row, the data rows after its type inference). \<open>list_repr\<close> is the text
  of \<^verbatim>\<open>list(df.columns)\<close>, \<open>to_csv_exn\<close> the failure of \<^verbatim>\<open>to_csv\<close> if any, \<open>linesep\<close>
  the platform's line separator that \<^verbatim>\<open>to_csv\<close> ends records with, and \<open>pd_str\<close> is
  \<^verbatim>\<open>str()\<close> on scalars.
\<close>

record 'v pandas =
  sheet_data :: "string \<Rightarrow> exn + 'v cell list list"
  frame_of :: "'v cell list list \<Rightarrow> 'v dataframe"
  list_repr :: "string list \<Rightarrow> string"
  to_csv_exn :: "exn option"
  linesep :: string
  pd_str :: "'v \<Rightarrow> string"

definition read_excel :: "'v pandas \<Rightarrow> string \<Rightarrow> exn + 'v dataframe" where
  "read_excel pd path =
     (case sheet_data pd path of Inl e \<Rightarrow> Inl e | Inr sheet \<Rightarrow> Inr (frame_of pd sheet))"

definition usage_excel :: string where
  "usage_excel = ''Usage: python3 scripts/convert_excel.py <input.xlsx> <output.csv>''"

text \<open>
  \<^verbatim>\<open>df.to_csv(path, index=False)\<close>: the header record of column labels, then one
  record for each data row, through the CSV writer.
\<close>

definition to_csv :: "'v pandas \<Rightarrow> 'v dataframe \<Rightarrow> string" where
  "to_csv pd df =
     concat (map (writerow_lt (linesep pd) (pd_str pd)) (map PyStr (columns df) # data df))"

definition convert_excel :: "'v pandas \<Rightarrow> string list \<Rightarrow> nat \<times> io list" where
  "convert_excel pd argv =
     (if length argv \<noteq> 3 then (1, [Print usage_excel])
      else
        (let input_file = argv ! 1;
             output_file = argv ! 2;
             start = [Print (''Reading '' @ input_file @ ''...''), Read_excel input_file]
         in case read_excel pd input_file of
              Inl e \<Rightarrow> (1, start @ [Print (cross_mark @ '' Error: '' @ str_exn e)])
            | Inr df \<Rightarrow>
                (let found = [Print (''Found '' @ str_nat (length (data df)) @ '' rows, ''
                                       @ str_nat (length (columns df)) @ '' columns''),
                              Print (''Columns: '' @ list_repr pd (columns df)),
                              Print (''Writing to '' @ output_file @ ''...'')]
                 in case to_csv_exn pd of
                      Some e \<Rightarrow>
                        (1, start @ found @ [Print (cross_mark @ '' Error: '' @ str_exn e)])
                    | None \<Rightarrow>
                        (0, start @ found
                              @ [To_csv output_file (to_csv pd df),
                                 Print (check_mark @ '' Successfully converted to ''
                                          @ output_file)]))))"

text \<open>The text a run leaves in a file: what its \<^verbatim>\<open>Write\<close> and \<^verbatim>\<open>To_csv\<close> effects
  on that path add up to.\<close>

fun written :: "string \<Rightarrow> io list \<Rightarrow> string" where
  "written path [] = []"
| "written path (Write p text # evs) = (if p = path then text else []) @ written path evs"
| "written path (To_csv p text # evs) = (if p = path then text else []) @ written path evs"
| "written path (ev # evs) = written path evs"

text \<open>Whether an effect touches the file system.\<close>

fun touches_files :: "io \<Rightarrow> bool" where
  "touches_files (Print s) = False"
| "touches_files Traceback = False"
| "touches_files ev = True"

section \<open>Sample inputs\<close>

text \<open>
  Concrete inputs at which the theorems below are instantiated. Scalars and
  datetimes are natural numbers here, printed in decimal.
\<close>

definition unpatched :: modules where
  "unpatched = \<lparr>utils_datetime = Lib_from_ISO8601, descriptors_base = Lib_from_ISO8601\<rparr>"

definition sample_lib :: "string \<Rightarrow> exn + nat" where
  "sample_lib t =
     (if t = ''2025-02-18T20:40:31Z'' then Inr 1 else Inl (Exception ''Invalid datetime value''))"

definition sample_sheet :: "nat cell list list \<Rightarrow> nat worksheet" where
  "sample_sheet rs =
     \<lparr>title = ''FY25'', max_row = Some (length rs), max_column = Some 2, rows = rs,
        iter_exn = None\<rparr>"

definition sample_world :: "nat cell list list \<Rightarrow> nat world" where
  "sample_world rs =
     \<lparr>load_workbook = (\<lambda>m p. Inr (sample_sheet rs)), open_w = (\<lambda>p. None),
        write_exn = (\<lambda>k. None), py_str = str_nat\<rparr>"

text \<open>
  A loader that parses the workbook's creation date, a document property, with the
  function bound to \<^verbatim>\<open>openpyxl.descriptors.base.from_ISO8601\<close>, at clock value \<open>now\<close>.
  The parsed date stays in the workbook's properties, which the scripts never read.
\<close>

definition metadata_world :: "nat \<Rightarrow> string \<Rightarrow> nat cell list list \<Rightarrow> nat world" where
  "metadata_world now created rs =
     \<lparr>load_workbook =
        (\<lambda>m p. case call_fn 100 m sample_lib now (descriptors_base m) created of
                  Inl e \<Rightarrow> Inl e
                | Inr d \<Rightarrow> Inr (sample_sheet rs)),
      open_w = (\<lambda>p. None), write_exn = (\<lambda>k. None), py_str = str_nat\<rparr>"

text \<open>
  A loader whose cell reader parses the timestamp of a date cell with its own
  reference to the library's routine, one that neither script rebinds: the row is
  yielded when the routine accepts the text, and the iteration raises otherwise.
\<close>

definition cell_world :: "string \<Rightarrow> nat world" where
  "cell_world stamp =
     \<lparr>load_workbook =
        (\<lambda>m p. Inr \<lparr>title = ''FY25'', max_row = Some 1, max_column = Some 1,
                     rows = (case sample_lib stamp of Inl e \<Rightarrow> [] | Inr d \<Rightarrow> [[PyScalar d]]),
                     iter_exn = (case sample_lib stamp of Inl e \<Rightarrow> Some e | Inr d \<Rightarrow> None)\<rparr>),
      open_w = (\<lambda>p. None), write_exn = (\<lambda>k. None), py_str = str_nat\<rparr>"

text \<open>
  pandas on one workbook: \<open>sheet\<close> is what the file holds and \<open>df\<close> the frame that
  \<^verbatim>\<open>read_excel\<close> builds from it.
\<close>

definition sample_pandas :: "nat cell list list \<Rightarrow> nat dataframe \<Rightarrow> nat pandas" where
  "sample_pandas sheet df =
     \<lparr>sheet_data = (\<lambda>p. Inr sheet), frame_of = (\<lambda>s. df), list_repr = concat,
        to_csv_exn = None, linesep = [LF], pd_str = str_nat\<rparr>"

definition sample_argv :: "string list" where
  "sample_argv = [''convert.py'', ''in.xlsx'', ''out.csv'']"

text \<open>A string one character longer than the default field size limit.\<close>

definition long_field :: string where
  "long_field = replicate (Suc field_size_limit) (CHR ''a'')"


section \<open>Facts about the repair\<close>


declare replace.simps [simp del]

declare str_nat.simps [simp del]









lemma patched_self:
  "utils_datetime m = Patched_from_ISO8601 \<Longrightarrow> patched_from_ISO8601 depth m lib now s = Inr now"
proof (induction depth arbitrary: s)
  case 0
  then show ?case by simp
next
  case (Suc depth)
  then show ?case by simp
qed

lemma parser_value:
  "patched_from_ISO8601 depth m lib now s = Inr now
   \<or> (\<exists>d. lib (fixed s) = Inr d \<and> patched_from_ISO8601 depth m lib now s = Inr d)"
proof (cases "utils_datetime m")
  case Lib_from_ISO8601
  then show ?thesis by (cases depth; cases "lib (fixed s)") simp_all
next
  case Patched_from_ISO8601
  then show ?thesis by (simp add: patched_self del: patched_from_ISO8601.simps)
qed













section \<open>Reading back what the writer wrote\<close>

lemma chars_distinct [simp]:
  "CR \<noteq> LF" "LF \<noteq> CR" "quotechar \<noteq> CR" "quotechar \<noteq> LF" "delimiter \<noteq> CR" "delimiter \<noteq> LF"
  "quotechar \<noteq> delimiter" "delimiter \<noteq> quotechar" "CR \<noteq> quotechar" "LF \<noteq> quotechar"
  "CR \<noteq> delimiter" "LF \<noteq> delimiter"
  by (simp_all add: CR_def LF_def quotechar_def delimiter_def)

lemma line_ends_plain: "c \<noteq> CR \<Longrightarrow> c \<noteq> LF \<Longrightarrow> r \<noteq> [] \<Longrightarrow> \<not> line_ends c r"
  by (cases r) simp_all

lemma line_ends_LF [simp]: "line_ends LF r"
  by (cases r) simp_all

lemma within_full: "within limit (f @ [c]) \<Longrightarrow> \<not> full limit f"
  by (cases limit) simp_all

lemma within_append: "within limit (f @ s) \<Longrightarrow> within limit f"
  by (cases limit) simp_all

lemma add_char_within:
  "within limit (f @ c # s) \<Longrightarrow> add_char limit mode f fs c = Inr (mode, f @ [c], fs)"
proof -
  assume "within limit (f @ c # s)"
  then have "within limit ((f @ [c]) @ s)" by simp
  then have "within limit (f @ [c])" by (rule within_append)
  then show ?thesis by (simp add: add_char_def within_full)
qed

lemma plain_char:
  "\<not> special lt c \<Longrightarrow> c \<noteq> CR \<and> c \<noteq> LF \<and> c \<noteq> delimiter \<and> c \<noteq> quotechar"
  by (auto simp: special_def)

lemma unquoted_body:
  "\<not> list_ex (special lt) s \<Longrightarrow> r \<noteq> [] \<Longrightarrow> within limit (f @ s) \<Longrightarrow>
   reader_loop limit IN_FIELD f fs (s @ r) = reader_loop limit IN_FIELD (f @ s) fs r"
proof (induction s arbitrary: f)
  case Nil
  then show ?case by simp
next
  case (Cons c s)
  have c: "c \<noteq> CR" "c \<noteq> LF" "c \<noteq> delimiter"
    using Cons.prems(1) plain_char [of lt c] by auto
  have ne: "s @ r \<noteq> []" using Cons.prems(2) by simp
  have "reader_loop limit IN_FIELD f fs ((c # s) @ r) = reader_loop limit IN_FIELD (f @ [c]) fs (s @ r)"
    using c line_ends_plain [OF c(1) c(2) ne] add_char_within [OF Cons.prems(3)]
    by (simp add: process_char_def)
  also have "\<dots> = reader_loop limit IN_FIELD ((f @ [c]) @ s) fs r"
    using Cons.prems by (intro Cons.IH) simp_all
  finally show ?case by simp
qed

lemma double_quotes_Cons:
  "double_quotes (c # s) = (if c = quotechar then [quotechar, quotechar] else [c]) @ double_quotes s"
  by (simp add: double_quotes_def)

lemma quoted_body:
  "r \<noteq> [] \<Longrightarrow> within limit (f @ s) \<Longrightarrow>
   reader_loop limit IN_QUOTED_FIELD f fs (double_quotes s @ quotechar # r)
     = reader_loop limit QUOTE_IN_QUOTED_FIELD (f @ s) fs r"
proof (induction s arbitrary: f)
  case Nil
  then show ?case
    by (simp add: double_quotes_def process_char_def line_ends_plain)
next
  case (Cons c s)
  have ne: "double_quotes s @ quotechar # r \<noteq> []" by simp
  have w: "within limit ((f @ [c]) @ s)" using Cons.prems(2) by simp
  have "reader_loop limit IN_QUOTED_FIELD f fs (double_quotes (c # s) @ quotechar # r)
          = reader_loop limit IN_QUOTED_FIELD (f @ [c]) fs (double_quotes s @ quotechar # r)"
  proof (cases "c = quotechar")
    case True
    then show ?thesis
      using ne add_char_within [OF Cons.prems(2)]
      by (simp add: double_quotes_Cons process_char_def line_ends_plain)
  next
    case False
    then show ?thesis
      using add_char_within [OF Cons.prems(2)]
      by (simp add: double_quotes_Cons process_char_def)
  qed
  then show ?case using Cons.IH [OF Cons.prems(1) w] by simp
qed

lemma quoted_field:
  assumes "mode = START_RECORD \<or> mode = START_FIELD" "r \<noteq> []" "within limit s"
  shows "reader_loop limit mode [] fs (quotechar # double_quotes s @ quotechar # r)
           = reader_loop limit QUOTE_IN_QUOTED_FIELD s fs r"
proof -
  have "reader_loop limit mode [] fs (quotechar # double_quotes s @ quotechar # r)
          = reader_loop limit IN_QUOTED_FIELD [] fs (double_quotes s @ quotechar # r)"
    using assms(1) by (auto simp: process_char_def start_field_def line_ends_plain)
  then show ?thesis using quoted_body [OF assms(2), of limit "[]" s fs] assms(3) by simp
qed

lemma unquoted_field:
  assumes "mode = START_RECORD \<or> mode = START_FIELD" "r \<noteq> []"
    "\<not> list_ex (special lt) (c # s)" "within limit (c # s)"
  shows "reader_loop limit mode [] fs (c # s @ r) = reader_loop limit IN_FIELD (c # s) fs r"
proof -
  have c: "c \<noteq> CR" "c \<noteq> LF" "c \<noteq> delimiter" "c \<noteq> quotechar"
    using assms(3) plain_char [of lt c] by auto
  have s: "\<not> list_ex (special lt) s" using assms(3) by simp
  have a: "add_char limit IN_FIELD [] fs c = Inr (IN_FIELD, [c], fs)"
    using add_char_within [of limit "[]" c s] assms(4) by simp
  have "reader_loop limit mode [] fs (c # s @ r) = reader_loop limit IN_FIELD [c] fs (s @ r)"
    using assms(1,2) c a by (auto simp: process_char_def start_field_def line_ends_plain)
  then show ?thesis using unquoted_body [OF s assms(2), of limit "[c]" fs] assms(4) by simp
qed

lemma field_then_delimiter:
  assumes "mode = START_RECORD \<or> mode = START_FIELD" "r \<noteq> []" "within limit s"
  shows "reader_loop limit mode [] fs (join_field lt s @ delimiter # r)
           = reader_loop limit START_FIELD [] (fs @ [s]) r"
proof (cases "needs_quotes lt s")
  case True
  have "reader_loop limit mode [] fs (join_field lt s @ delimiter # r)
          = reader_loop limit QUOTE_IN_QUOTED_FIELD s fs (delimiter # r)"
    using True quoted_field [OF assms(1) _ assms(3), of "delimiter # r" fs]
    by (simp add: join_field_def)
  also have "\<dots> = reader_loop limit START_FIELD [] (fs @ [s]) r"
    using assms(2) by (simp add: process_char_def line_ends_plain)
  finally show ?thesis .
next
  case False
  show ?thesis
  proof (cases s)
    case Nil
    then show ?thesis
      using False assms by (auto simp: join_field_def process_char_def start_field_def line_ends_plain)
  next
    case (Cons c s')
    have "reader_loop limit mode [] fs (join_field lt s @ delimiter # r)
            = reader_loop limit IN_FIELD s fs (delimiter # r)"
      using False Cons unquoted_field [OF assms(1), of "delimiter # r" lt c s' limit fs] assms(3)
      by (simp add: join_field_def needs_quotes_def)
    also have "\<dots> = reader_loop limit START_FIELD [] (fs @ [s]) r"
      using assms(2) by (simp add: process_char_def line_ends_plain)
    finally show ?thesis .
  qed
qed

lemma end_of_record:
  assumes "mode = IN_FIELD \<or> mode = QUOTE_IN_QUOTED_FIELD \<or> mode = START_FIELD"
    "lt = [LF] \<or> lt = [CR, LF]"
  shows "reader_loop limit mode f fs (lt @ r)
           = emit (fs @ [f]) (reader_loop limit START_RECORD [] [] r)"
  using assms by (auto simp: process_char_def start_field_def)

lemma field_then_end:
  assumes "mode = START_FIELD \<or> (mode = START_RECORD \<and> s \<noteq> [])"
    "lt = [LF] \<or> lt = [CR, LF]" "within limit s"
  shows "reader_loop limit mode [] fs (join_field lt s @ lt @ r)
           = emit (fs @ [s]) (reader_loop limit START_RECORD [] [] r)"
proof -
  have m: "mode = START_RECORD \<or> mode = START_FIELD" using assms by auto
  have ne: "lt @ r \<noteq> []" using assms(2) by auto
  show ?thesis
  proof (cases "needs_quotes lt s")
    case True
    have "reader_loop limit mode [] fs (join_field lt s @ lt @ r)
            = reader_loop limit QUOTE_IN_QUOTED_FIELD s fs (lt @ r)"
      using True quoted_field [OF m ne assms(3), of fs] by (simp add: join_field_def)
    also have "\<dots> = emit (fs @ [s]) (reader_loop limit START_RECORD [] [] r)"
      by (rule end_of_record) (simp_all add: assms(2))
    finally show ?thesis .
  next
    case False
    show ?thesis
    proof (cases s)
      case Nil
      have "reader_loop limit mode [] fs (join_field lt s @ lt @ r)
              = reader_loop limit START_FIELD [] fs (lt @ r)"
        using False Nil assms by (simp add: join_field_def)
      also have "\<dots> = emit (fs @ [[]]) (reader_loop limit START_RECORD [] [] r)"
        by (rule end_of_record) (simp_all add: assms(2))
      finally show ?thesis using Nil by simp
    next
      case (Cons c s')
      have "reader_loop limit mode [] fs (join_field lt s @ lt @ r)
              = reader_loop limit IN_FIELD s fs (lt @ r)"
        using False Cons unquoted_field [OF m ne, of lt c s' limit fs] assms(3)
        by (simp add: join_field_def needs_quotes_def)
      also have "\<dots> = emit (fs @ [s]) (reader_loop limit START_RECORD [] [] r)"
        by (rule end_of_record) (simp_all add: assms(2))
      finally show ?thesis .
    qed
  qed
qed

lemma fields_then_end:
  assumes "ts \<noteq> []" "mode = START_FIELD \<or> (mode = START_RECORD \<and> ts \<noteq> [[]])"
    "lt = [LF] \<or> lt = [CR, LF]" "list_all (within limit) ts"
  shows "reader_loop limit mode [] fs (join_fields lt ts @ lt @ r)
           = emit (fs @ ts) (reader_loop limit START_RECORD [] [] r)"
  using assms(1,2,4)
proof (induction ts arbitrary: mode fs)
  case Nil
  then show ?case by simp
next
  case (Cons s ts)
  show ?case
  proof (cases ts)
    case Nil
    have "mode = START_FIELD \<or> (mode = START_RECORD \<and> s \<noteq> [])"
      using Cons.prems Nil by auto
    then show ?thesis
      using Nil field_then_end [of mode s lt limit fs r] assms(3) Cons.prems(3) by simp
  next
    case (Cons t ss)
    have m: "mode = START_RECORD \<or> mode = START_FIELD" using Cons.prems by auto
    have ne: "join_fields lt ts @ lt @ r \<noteq> []" using assms(3) by auto
    have "reader_loop limit mode [] fs (join_fields lt (s # ts) @ lt @ r)
            = reader_loop limit START_FIELD [] (fs @ [s]) (join_fields lt ts @ lt @ r)"
      using Cons field_then_delimiter [OF m ne, of limit s fs lt] Cons.prems(3)
      by simp
    also have "\<dots> = emit ((fs @ [s]) @ ts) (reader_loop limit START_RECORD [] [] r)"
      using Cons Cons.prems(3) by (intro Cons.IH) simp_all
    finally show ?thesis by simp
  qed
qed

lemma reader_loop_writerow_lt:
  assumes "lt = [LF] \<or> lt = [CR, LF]" "list_all (within limit) (map (field_text to_str) row)"
  shows "reader_loop limit START_RECORD [] [] (writerow_lt lt to_str row @ r)
     = emit (map (field_text to_str) row) (reader_loop limit START_RECORD [] [] r)"
proof -
  let ?ts = "map (field_text to_str) row"
  consider "?ts = []" | "?ts = [[]]" | "?ts \<noteq> []" "?ts \<noteq> [[]]" by blast
  then show ?thesis
  proof cases
    case 1
    then show ?thesis
      using assms(1) by (auto simp: writerow_lt_def process_char_def)
  next
    case 2
    have "reader_loop limit START_RECORD [] [] ([quotechar, quotechar] @ lt @ r)
            = reader_loop limit QUOTE_IN_QUOTED_FIELD [] [] (lt @ r)"
      using assms(1) by (auto simp: process_char_def start_field_def line_ends_plain)
    also have "\<dots> = emit ([] @ [[]]) (reader_loop limit START_RECORD [] [] r)"
      by (rule end_of_record) (simp_all add: assms(1))
    finally show ?thesis using 2 by (simp add: writerow_lt_def)
  next
    case 3
    then show ?thesis
      using fields_then_end [of ?ts START_RECORD lt limit "[]" r] assms
      by (simp add: writerow_lt_def Let_def)
  qed
qed

lemma reader_writerows_lt:
  assumes "lt = [LF] \<or> lt = [CR, LF]"
  shows "fits limit (map (map (field_text to_str)) rs) \<Longrightarrow>
    reader limit (concat (map (writerow_lt lt to_str) rs)) = Inr (map (map (field_text to_str)) rs)"
  unfolding reader_def
  by (induction rs) (simp_all add: reader_loop_writerow_lt [OF assms] fits_def)

lemma within_None [simp]: "list_all (within None) ts"
  by (simp add: list_all_iff)

lemma fits_None [simp]: "fits None table"
  by (simp add: fits_def list_all_iff)

lemma reader_writerows:
  "fits limit (map (map (field_text to_str)) rs) \<Longrightarrow>
   reader limit (concat (map (writerow to_str) rs)) = Inr (map (map (field_text to_str)) rs)"
  unfolding writerow_def by (rule reader_writerows_lt) simp


section \<open>The parser's value\<close>

lemma parser_fallback:
  "lib (fixed s) = Inl e \<Longrightarrow> patched_from_ISO8601 depth m lib now s = Inr now"
  using parser_value [of depth m lib now s] by auto


section \<open>What the rows of a sheet are written as\<close>

lemma texts_xlsx:
  "map (field_text to_str) (row_xlsx row)
     = map (\<lambda>cell. if cell = PyNone then [] else str to_str cell) row"
proof -
  have "field_text to_str (if cell = PyNone then PyStr [] else cell)
          = (if cell = PyNone then [] else str to_str cell)" for cell :: "'a cell"
    by (cases cell) simp_all
  then show ?thesis by (simp add: row_xlsx_def)
qed

lemma texts_2025:
  "map (field_text to_str) (row_2025 to_str row)
     = map (\<lambda>cell. if cell = PyNone then [] else str to_str cell) row"
  by (simp add: row_2025_def)

lemma texts_plain:
  "map (\<lambda>cell. if cell = PyNone then [] else str to_str cell) row = map (field_text to_str) row"
proof -
  have "(if cell = PyNone then [] else str to_str cell) = field_text to_str cell" for cell :: "'a cell"
    by (cases cell) simp_all
  then show ?thesis by simp
qed

lemma writerow_texts:
  "map (field_text to_str) r1 = map (field_text to_str) r2 \<Longrightarrow> writerow to_str r1 = writerow to_str r2"
  by (simp add: writerow_def writerow_lt_def)


lemma reader_writerow:
  "reader None (writerow to_str row) = Inr [map (field_text to_str) row]"
  using reader_writerows [of None to_str "[row]"] by simp

section \<open>What a successful run leaves in the output file\<close>

lemma written_append: "written p (a @ b) = written p a @ written p b"
  by (induction p a rule: written.induct) simp_all

lemma loop_xlsx_written:
  "loop_xlsx w out idx rs end_exn = (evs, None) \<Longrightarrow>
   written out evs = concat (map (\<lambda>r. writerow (py_str w) (row_xlsx r)) rs)"
proof (induction rs arbitrary: idx evs)
  case Nil
  then show ?case by simp
next
  case (Cons r rs)
  from Cons.prems obtain evs' where
    rest: "loop_xlsx w out (Suc idx) rs end_exn = (evs', None)" and
    evs: "evs = Write out (writerow (py_str w) (row_xlsx r))
            # (if idx mod 2000 = 0 then [Print (''  Processed '' @ str_nat idx @ '' rows...'')] else [])
            @ evs'"
    by (auto split: option.splits prod.splits)
  show ?case using Cons.IH [OF rest] by (simp add: evs)
qed

lemma writerows_written:
  "writerows w out k rs = (evs, None) \<Longrightarrow>
   written out evs = concat (map (writerow (py_str w)) rs)"
proof (induction rs arbitrary: k evs)
  case Nil
  then show ?case by simp
next
  case (Cons r rs)
  from Cons.prems obtain evs' where
    rest: "writerows w out (Suc k) rs = (evs', None)" and
    evs: "evs = Write out (writerow (py_str w) r) # evs'"
    by (auto split: option.splits prod.splits)
  show ?case using Cons.IH [OF rest] by (simp add: evs)
qed

lemma try_xlsx_written:
  assumes "load_workbook w m inp = Inr ws" "try_xlsx w m inp out = (evs, None)"
  shows "written out evs = concat (map (\<lambda>r. writerow (py_str w) (row_xlsx r)) (rows ws))"
proof -
  from assms obtain evs' where
    loop: "loop_xlsx w out 1 (rows ws) (iter_exn ws) = (evs', None)" and
    evs: "evs = [Print (''Reading '' @ inp @ '' with openpyxl...''), Load_workbook inp]
            @ [Print (sheet_line ws), Open_write out] @ evs'
            @ [Print (check_mark @ '' Successfully converted to '' @ out)]"
    by (auto simp: try_xlsx_def Let_def split: option.splits prod.splits if_splits)
  show ?thesis using loop_xlsx_written [OF loop] by (simp add: evs written_append)
qed

lemma try_2025_written:
  assumes "load_workbook w m input_2025 = Inr ws" "try_2025 w m = (evs, None)"
  shows "written output_2025 evs
           = concat (map (\<lambda>r. writerow (py_str w) (row_2025 (py_str w) r)) (rows ws))"
proof -
  from assms obtain evs' where
    loop: "writerows w output_2025 1 (map (row_2025 (py_str w)) (rows ws)) = (evs', None)" and
    evs: "evs = [Print (''Reading '' @ input_2025 @ ''...''), Load_workbook input_2025]
            @ [Print (sheet_line ws),
               Print (''Writing '' @ str_nat (length (rows ws)) @ '' rows to '' @ output_2025 @ ''...'')]
            @ [Open_write output_2025] @ evs'
            @ [Print (check_mark @ '' Successfully converted to '' @ output_2025)]"
    by (auto simp: try_2025_def Let_def split: option.splits prod.splits if_splits)
  show ?thesis using writerows_written [OF loop] by (simp add: evs written_append comp_def)
qed

lemma main_xlsx_success:
  assumes "length argv = 3" "exit_status (main_xlsx w m argv) = 0"
  shows "\<exists>evs. try_xlsx w (patch_xlsx m) (argv ! 1) (argv ! 2) = (evs, None)
           \<and> trace (main_xlsx w m argv) = evs"
  using assms by (auto simp: main_xlsx_def Let_def split: prod.splits option.splits)

lemma main_2025_success:
  assumes "exit_status (main_2025 w m) = 0"
  shows "\<exists>evs. try_2025 w (patch_2025 m) = (evs, None) \<and> trace (main_2025 w m) = evs"
  using assms by (auto simp: main_2025_def Let_def split: prod.splits option.splits)


lemma xlsx_written:
  assumes "length argv = 3" "load_workbook w (patch_xlsx m) (argv ! 1) = Inr ws"
    "exit_status (main_xlsx w m argv) = 0"
  shows "written (argv ! 2) (trace (main_xlsx w m argv))
           = concat (map (\<lambda>r. writerow (py_str w) (row_xlsx r)) (rows ws))"
proof -
  obtain evs where "try_xlsx w (patch_xlsx m) (argv ! 1) (argv ! 2) = (evs, None)"
    "trace (main_xlsx w m argv) = evs"
    using main_xlsx_success [OF assms(1,3)] by blast
  then show ?thesis using try_xlsx_written [OF assms(2)] by simp
qed

lemma fmr_2025_written:
  assumes "load_workbook w (patch_2025 m) input_2025 = Inr ws"
    "exit_status (main_2025 w m) = 0"
  shows "written output_2025 (trace (main_2025 w m))
           = concat (map (\<lambda>r. writerow (py_str w) (row_2025 (py_str w) r)) (rows ws))"
proof -
  obtain evs where "try_2025 w (patch_2025 m) = (evs, None)" "trace (main_2025 w m) = evs"
    using main_2025_success [OF assms(2)] by blast
  then show ?thesis using try_2025_written [OF assms(1)] by simp
qed

lemma reader_rows_xlsx:
  assumes "fits limit (map (map (field_text to_str)) rs)"
  shows "reader limit (concat (map (\<lambda>r. writerow to_str (row_xlsx r)) rs))
           = Inr (map (map (field_text to_str)) rs)"
proof -
  have e: "map (map (field_text to_str)) (map row_xlsx rs) = map (map (field_text to_str)) rs"
    by (simp add: comp_def texts_xlsx texts_plain)
  have "reader limit (concat (map (writerow to_str) (map row_xlsx rs)))
          = Inr (map (map (field_text to_str)) (map row_xlsx rs))"
    by (rule reader_writerows) (simp only: e assms)
  then show ?thesis by (simp add: comp_def texts_xlsx texts_plain)
qed

lemma reader_rows_2025:
  assumes "fits limit (map (map (field_text to_str)) rs)"
  shows "reader limit (concat (map (\<lambda>r. writerow to_str (row_2025 to_str r)) rs))
           = Inr (map (map (field_text to_str)) rs)"
proof -
  have e: "map (map (field_text to_str)) (map (row_2025 to_str) rs)
             = map (map (field_text to_str)) rs"
    by (simp add: comp_def texts_2025 texts_plain)
  have "reader limit (concat (map (writerow to_str) (map (row_2025 to_str) rs)))
          = Inr (map (map (field_text to_str)) (map (row_2025 to_str) rs))"
    by (rule reader_writerows) (simp only: e assms)
  then show ?thesis by (simp add: comp_def texts_2025 texts_plain)
qed

lemma xlsx_output:
  assumes "length argv = 3" "load_workbook w (patch_xlsx m) (argv ! 1) = Inr ws"
    "exit_status (main_xlsx w m argv) = 0"
    "fits limit (map (map (field_text (py_str w))) (rows ws))"
  shows "reader limit (written (argv ! 2) (trace (main_xlsx w m argv)))
           = Inr (map (map (field_text (py_str w))) (rows ws))"
  using xlsx_written [OF assms(1,2,3)] reader_rows_xlsx [OF assms(4)] by simp

lemma fmr_2025_output:
  assumes "load_workbook w (patch_2025 m) input_2025 = Inr ws"
    "exit_status (main_2025 w m) = 0"
    "fits limit (map (map (field_text (py_str w))) (rows ws))"
  shows "reader limit (written output_2025 (trace (main_2025 w m)))
           = Inr (map (map (field_text (py_str w))) (rows ws))"
  using fmr_2025_written [OF assms(1,2)] reader_rows_2025 [OF assms(3)] by simp

lemma convert_excel_success:
  assumes "length argv = 3" "sheet_data pd (argv ! 1) = Inr sheet" "fst (convert_excel pd argv) = 0"
  shows "written (argv ! 2) (snd (convert_excel pd argv)) = to_csv pd (frame_of pd sheet)"
  using assms
  by (auto simp: convert_excel_def read_excel_def Let_def written_append split: option.splits)

lemma convert_excel_output:
  assumes "length argv = 3" "sheet_data pd (argv ! 1) = Inr sheet" "fst (convert_excel pd argv) = 0"
    "linesep pd = [LF] \<or> linesep pd = [CR, LF]"
    "fits limit (columns (frame_of pd sheet)
                  # map (map (field_text (pd_str pd))) (data (frame_of pd sheet)))"
  shows "reader limit (written (argv ! 2) (snd (convert_excel pd argv)))
           = Inr (columns (frame_of pd sheet)
                  # map (map (field_text (pd_str pd))) (data (frame_of pd sheet)))"
proof -
  let ?df = "frame_of pd sheet"
  have t: "map (map (field_text (pd_str pd))) (map PyStr (columns ?df) # data ?df)
             = columns ?df # map (map (field_text (pd_str pd))) (data ?df)"
    by (simp add: comp_def)
  have "reader limit (concat (map (writerow_lt (linesep pd) (pd_str pd))
                                  (map PyStr (columns ?df) # data ?df)))
          = Inr (map (map (field_text (pd_str pd))) (map PyStr (columns ?df) # data ?df))"
    by (rule reader_writerows_lt [OF assms(4)]) (simp only: t assms(5))
  then show ?thesis
    unfolding convert_excel_success [OF assms(1,2,3)] to_csv_def t .
qed

section \<open>Runs that the library ends\<close>

lemma loop_xlsx_raises:
  "snd (loop_xlsx w out idx rs (Some e)) \<noteq> None"
proof (induction rs arbitrary: idx)
  case Nil
  then show ?case by simp
next
  case (Cons r rs)
  obtain evs x where l: "loop_xlsx w out (Suc idx) rs (Some e) = (evs, x)"
    by (cases "loop_xlsx w out (Suc idx) rs (Some e)")
  have "x \<noteq> None" using Cons.IH [of "Suc idx"] l by simp
  then show ?case using l by (cases "write_exn w idx") simp_all
qed

lemma main_xlsx_load_raises:
  assumes "length argv = 3" "load_workbook w (patch_xlsx m) (argv ! 1) = Inl e"
  shows "exit_status (main_xlsx w m argv) = 1"
  using assms by (simp add: main_xlsx_def try_xlsx_def Let_def)

lemma main_xlsx_iteration_raises:
  assumes "length argv = 3" "load_workbook w (patch_xlsx m) (argv ! 1) = Inr ws"
    "iter_exn ws = Some e"
  shows "exit_status (main_xlsx w m argv) = 1"
proof -
  have "snd (loop_xlsx w (argv ! 2) 1 (rows ws) (iter_exn ws)) \<noteq> None"
    using assms(3) loop_xlsx_raises [of w "argv ! 2" 1 "rows ws" e] by simp
  then show ?thesis
    using assms(1,2)
    by (auto simp: main_xlsx_def try_xlsx_def Let_def split: option.splits prod.splits)
qed

lemma main_2025_load_raises:
  assumes "load_workbook w (patch_2025 m) input_2025 = Inl e"
  shows "exit_status (main_2025 w m) = 1"
  using assms by (simp add: main_2025_def try_2025_def Let_def)

lemma main_2025_iteration_raises:
  assumes "load_workbook w (patch_2025 m) input_2025 = Inr ws" "iter_exn ws = Some e"
  shows "exit_status (main_2025 w m) = 1"
  using assms by (simp add: main_2025_def try_2025_def Let_def)

section \<open>A field beyond the limit\<close>

lemma unquoted_overflow:
  "\<not> list_ex (special lt) s \<Longrightarrow> r \<noteq> [] \<Longrightarrow> length f \<le> n \<Longrightarrow> n < length f + length s \<Longrightarrow>
   reader_loop (Some n) IN_FIELD f fs (s @ r)
     = Inl (Exception (''field larger than field limit ('' @ str_nat n @ '')''))"
proof (induction s arbitrary: f)
  case Nil
  then show ?case by simp
next
  case (Cons c s)
  have c: "c \<noteq> CR" "c \<noteq> LF" "c \<noteq> delimiter"
    using Cons.prems(1) plain_char [of lt c] by auto
  have ne: "s @ r \<noteq> []" using Cons.prems(2) by simp
  show ?case
  proof (cases "length f = n")
    case True
    then show ?thesis using c by (simp add: process_char_def add_char_def)
  next
    case False
    then have lt: "length f < n" using Cons.prems(3) by simp
    have "reader_loop (Some n) IN_FIELD f fs ((c # s) @ r)
            = reader_loop (Some n) IN_FIELD (f @ [c]) fs (s @ r)"
      using c lt line_ends_plain [OF c(1) c(2) ne] by (simp add: process_char_def add_char_def)
    also have "\<dots> = Inl (Exception (''field larger than field limit ('' @ str_nat n @ '')''))"
      using Cons.prems lt by (intro Cons.IH) simp_all
    finally show ?thesis .
  qed
qed

lemma long_field_plain: "\<not> list_ex (special lt) (replicate k (CHR ''a''))" if "CHR ''a'' \<notin> set lt"
  using that by (induction k) (simp_all add: special_def delimiter_def quotechar_def CR_def LF_def)

lemma reader_long_field:
  "reader (Some field_size_limit) (writerow to_str [PyStr long_field])
     = Inl (Exception (''field larger than field limit ('' @ str_nat field_size_limit @ '')''))"
proof -
  obtain s where s: "long_field = CHR ''a'' # s" "s = replicate field_size_limit (CHR ''a'')"
    by (simp add: long_field_def)
  have p: "\<not> list_ex (special [CR, LF]) long_field"
    unfolding long_field_def by (rule long_field_plain) (simp add: CR_def LF_def)
  have ps: "\<not> list_ex (special [CR, LF]) s" using p unfolding s(1) by simp
  have w: "writerow to_str [PyStr long_field] = CHR ''a'' # s @ [CR, LF]"
    using p unfolding s(1) by (simp add: writerow_def writerow_lt_def join_field_def needs_quotes_def)
  have a: "CHR ''a'' \<noteq> CR" "CHR ''a'' \<noteq> LF" "CHR ''a'' \<noteq> delimiter" "CHR ''a'' \<noteq> quotechar"
    by (simp_all add: CR_def LF_def delimiter_def quotechar_def)
  have "reader (Some field_size_limit) (writerow to_str [PyStr long_field])
          = reader_loop (Some field_size_limit) IN_FIELD [CHR ''a''] [] (s @ [CR, LF])"
    unfolding w reader_def using a
    by (simp add: process_char_def start_field_def add_char_def line_ends_plain field_size_limit_def)
  also have "\<dots> = Inl (Exception (''field larger than field limit ('' @ str_nat field_size_limit @ '')''))"
    by (rule unquoted_overflow [OF ps]) (simp_all add: s(2) field_size_limit_def)
  finally show ?thesis .
qed

lemma limit_digits:
  "char_of (48::nat) = CHR ''0''" "char_of (49::nat) = CHR ''1''" "char_of (50::nat) = CHR ''2''"
  "char_of (51::nat) = CHR ''3''" "char_of (55::nat) = CHR ''7''"
  by code_simp+

lemma str_nat_limit: "str_nat field_size_limit = ''131072''"
  by (simp add: str_nat.simps field_size_limit_def limit_digits)


section \<open>The tolerant parser: claims C1, C2 and C9\<close>




text \<open>
  C2, as the code has it. The tolerant parser returns a value for every string, at
  every recursion depth and whatever the module attribute holds; the value is the
  library's result on the repaired string or the clock value, hence the clock value
  when the library raises. A run of either tolerant script still ends with exit
  status 1 whenever the library raises while loading the workbook or iterating its
  rows.
\<close>

theorem tolerant_parser_total:
  "(\<exists>d. patched_from_ISO8601 depth m lib now s = Inr d \<and> (d = now \<or> lib (fixed s) = Inr d))
   \<and> (length argv = 3 \<and> load_workbook w (patch_xlsx m) (argv ! 1) = Inl e
        \<longrightarrow> exit_status (main_xlsx w m argv) = 1)
   \<and> (length argv = 3 \<and> load_workbook w (patch_xlsx m) (argv ! 1) = Inr ws
        \<and> iter_exn ws = Some e
        \<longrightarrow> exit_status (main_xlsx w m argv) = 1)
   \<and> (load_workbook w (patch_2025 m) input_2025 = Inl e \<longrightarrow> exit_status (main_2025 w m) = 1)
   \<and> (load_workbook w (patch_2025 m) input_2025 = Inr ws \<and> iter_exn ws = Some e
        \<longrightarrow> exit_status (main_2025 w m) = 1)"
proof -
  have "\<exists>d. patched_from_ISO8601 depth m lib now s = Inr d \<and> (d = now \<or> lib (fixed s) = Inr d)"
    using parser_value [of depth m lib now s] by auto
  then show ?thesis
    using main_xlsx_load_raises [of argv w m e] main_xlsx_iteration_raises [of argv w m ws e]
      main_2025_load_raises [of w m e] main_2025_iteration_raises [of w m ws e]
    by blast
qed

theorem tolerant_parser_total_witness:
  "(length sample_argv = 3
      \<and> load_workbook (metadata_world 0 ''not a timestamp'' []) (patch_2025 unpatched) input_2025
          = Inl (Exception ''Invalid datetime value'')
      \<and> load_workbook ((sample_world [])\<lparr>load_workbook := \<lambda>m p. Inl (Exception ''No such file'')\<rparr>)
            (patch_xlsx unpatched) (sample_argv ! 1)
          = Inl (Exception ''No such file'')
      \<and> iter_exn (sample_sheet []\<lparr>iter_exn := Some (Exception ''Invalid datetime value'')\<rparr>)
          = Some (Exception ''Invalid datetime value''))
   \<and> exit_status (main_2025 (metadata_world 0 ''not a timestamp'' []) unpatched) = 1
   \<and> exit_status (main_xlsx
         ((sample_world [])\<lparr>load_workbook := \<lambda>m p. Inl (Exception ''No such file'')\<rparr>)
         unpatched sample_argv) = 1
   \<and> exit_status (main_xlsx (cell_world ''2025- 2-18T20:40:31Z'') unpatched sample_argv) = 1
   \<and> exit_status (main_2025 (cell_world ''2025- 2-18T20:40:31Z'') unpatched) = 1"
proof -
  let ?nf = "(sample_world [])\<lparr>load_workbook := \<lambda>m p. Inl (Exception ''No such file'')\<rparr>"
  let ?cw = "cell_world ''2025- 2-18T20:40:31Z''"
  let ?ws = "\<lparr>title = ''FY25'', max_row = Some 1, max_column = Some 1, rows = [],
               iter_exn = Some (Exception ''Invalid datetime value'')\<rparr> :: nat worksheet"
  have a: "length sample_argv = 3
      \<and> load_workbook (metadata_world 0 ''not a timestamp'' []) (patch_2025 unpatched) input_2025
          = Inl (Exception ''Invalid datetime value'')
      \<and> load_workbook ?nf (patch_xlsx unpatched) (sample_argv ! 1) = Inl (Exception ''No such file'')
      \<and> iter_exn (sample_sheet []\<lparr>iter_exn := Some (Exception ''Invalid datetime value'')\<rparr>)
          = Some (Exception ''Invalid datetime value'')"
    by code_simp
  have c: "load_workbook ?cw (patch_xlsx unpatched) (sample_argv ! 1) = Inr ?ws
      \<and> load_workbook ?cw (patch_2025 unpatched) input_2025 = Inr ?ws
      \<and> iter_exn ?ws = Some (Exception ''Invalid datetime value'')"
    by code_simp
  from a have "exit_status (main_2025 (metadata_world 0 ''not a timestamp'' []) unpatched) = 1"
    using tolerant_parser_total [of 1 unpatched sample_lib 0 "[]" sample_argv
        "metadata_world 0 ''not a timestamp'' []" "Exception ''Invalid datetime value''"]
    by blast
  moreover from a have "exit_status (main_xlsx ?nf unpatched sample_argv) = 1"
    using tolerant_parser_total [of 1 unpatched sample_lib 0 "[]" sample_argv ?nf
        "Exception ''No such file''"]
    by blast
  moreover from a c have "exit_status (main_xlsx ?cw unpatched sample_argv) = 1"
    "exit_status (main_2025 ?cw unpatched) = 1"
    using tolerant_parser_total [of 1 unpatched sample_lib 0 "[]" sample_argv ?cw
        "Exception ''Invalid datetime value''" ?ws]
    by blast+
  ultimately show ?thesis using a by blast
qed

text \<open>
  C2 as stated fails. A date cell whose timestamp lacks a zero, which the tolerant
  parser would read (as \<open>1\<close> here), ends both tolerant runs with exit status 1 when
  the library's cell reader parses it with its own reference to the library's
  routine; with the zero in place the run succeeds.
\<close>

theorem unpatched_cell_reader_aborts_run:
  "patched_from_ISO8601 1 unpatched sample_lib 0 ''2025- 2-18T20:40:31Z'' = Inr 1
   \<and> exit_status (main_xlsx (cell_world ''2025- 2-18T20:40:31Z'') unpatched sample_argv) = 1
   \<and> exit_status (main_2025 (cell_world ''2025- 2-18T20:40:31Z'') unpatched) = 1
   \<and> exit_status (main_xlsx (cell_world ''2025-02-18T20:40:31Z'') unpatched sample_argv) = 0
   \<and> exit_status (main_2025 (cell_world ''2025-02-18T20:40:31Z'') unpatched) = 0"
  by code_simp

text \<open>
  C9, as the code has it. On an input whose repaired form the library rejects, two
  calls made at different clock values return different results. The file a
  successful tolerant run writes is determined by the rows the sheet yields: two
  successful runs whose sheets yield the same rows write the same file, whatever
  else the loader did with the parser.
\<close>

theorem fallback_depends_on_clock:
  "(lib (fixed s) = Inl e \<and> now1 \<noteq> now2
      \<longrightarrow> patched_from_ISO8601 depth m lib now1 s \<noteq> patched_from_ISO8601 depth m lib now2 s)
   \<and> (length argv = 3
        \<and> load_workbook w1 (patch_xlsx m) (argv ! 1) = Inr ws1
        \<and> load_workbook w2 (patch_xlsx m) (argv ! 1) = Inr ws2
        \<and> rows ws1 = rows ws2 \<and> py_str w1 = py_str w2
        \<and> exit_status (main_xlsx w1 m argv) = 0 \<and> exit_status (main_xlsx w2 m argv) = 0
      \<longrightarrow> written (argv ! 2) (trace (main_xlsx w1 m argv))
            = written (argv ! 2) (trace (main_xlsx w2 m argv)))
   \<and> (load_workbook w1 (patch_2025 m) input_2025 = Inr ws1
        \<and> load_workbook w2 (patch_2025 m) input_2025 = Inr ws2
        \<and> rows ws1 = rows ws2 \<and> py_str w1 = py_str w2
        \<and> exit_status (main_2025 w1 m) = 0 \<and> exit_status (main_2025 w2 m) = 0
      \<longrightarrow> written output_2025 (trace (main_2025 w1 m))
            = written output_2025 (trace (main_2025 w2 m)))"
proof (intro conjI impI)
  assume "lib (fixed s) = Inl e \<and> now1 \<noteq> now2"
  then show "patched_from_ISO8601 depth m lib now1 s \<noteq> patched_from_ISO8601 depth m lib now2 s"
    by (simp add: parser_fallback del: patched_from_ISO8601.simps)
next
  assume a: "length argv = 3
        \<and> load_workbook w1 (patch_xlsx m) (argv ! 1) = Inr ws1
        \<and> load_workbook w2 (patch_xlsx m) (argv ! 1) = Inr ws2
        \<and> rows ws1 = rows ws2 \<and> py_str w1 = py_str w2
        \<and> exit_status (main_xlsx w1 m argv) = 0 \<and> exit_status (main_xlsx w2 m argv) = 0"
  then show "written (argv ! 2) (trace (main_xlsx w1 m argv))
            = written (argv ! 2) (trace (main_xlsx w2 m argv))"
    using xlsx_written [of argv w1 m ws1] xlsx_written [of argv w2 m ws2] by simp
next
  assume a: "load_workbook w1 (patch_2025 m) input_2025 = Inr ws1
        \<and> load_workbook w2 (patch_2025 m) input_2025 = Inr ws2
        \<and> rows ws1 = rows ws2 \<and> py_str w1 = py_str w2
        \<and> exit_status (main_2025 w1 m) = 0 \<and> exit_status (main_2025 w2 m) = 0"
  then show "written output_2025 (trace (main_2025 w1 m))
            = written output_2025 (trace (main_2025 w2 m))"
    using fmr_2025_written [of w1 m ws1] fmr_2025_written [of w2 m ws2] by simp
qed

theorem fallback_depends_on_clock_witness:
  "(sample_lib (fixed ''not a timestamp'') = Inl (Exception ''Invalid datetime value'')
      \<and> (7::nat) \<noteq> 8)
   \<and> patched_from_ISO8601 100 (patch_xlsx unpatched) sample_lib 7 ''not a timestamp''
       \<noteq> patched_from_ISO8601 100 (patch_xlsx unpatched) sample_lib 8 ''not a timestamp''
   \<and> (length sample_argv = 3
      \<and> load_workbook (metadata_world 7 ''not a timestamp'' [[PyStr ''a'', PyNone], [PyScalar 12, PyStr ''b,c'']]) (patch_xlsx unpatched)
            (sample_argv ! 1) = Inr (sample_sheet [[PyStr ''a'', PyNone], [PyScalar 12, PyStr ''b,c'']])
      \<and> load_workbook (metadata_world 8 ''not a timestamp'' [[PyStr ''a'', PyNone], [PyScalar 12, PyStr ''b,c'']]) (patch_xlsx unpatched)
            (sample_argv ! 1) = Inr (sample_sheet [[PyStr ''a'', PyNone], [PyScalar 12, PyStr ''b,c'']])
      \<and> exit_status (main_xlsx (metadata_world 7 ''not a timestamp'' [[PyStr ''a'', PyNone], [PyScalar 12, PyStr ''b,c'']]) unpatched sample_argv) = 0
      \<and> exit_status (main_xlsx (metadata_world 8 ''not a timestamp'' [[PyStr ''a'', PyNone], [PyScalar 12, PyStr ''b,c'']]) unpatched sample_argv) = 0)
   \<and> written (sample_argv ! 2)
        (trace (main_xlsx (metadata_world 7 ''not a timestamp'' [[PyStr ''a'', PyNone], [PyScalar 12, PyStr ''b,c'']]) unpatched sample_argv))
       = written (sample_argv ! 2)
        (trace (main_xlsx (metadata_world 8 ''not a timestamp'' [[PyStr ''a'', PyNone], [PyScalar 12, PyStr ''b,c'']]) unpatched sample_argv))
   \<and> (load_workbook (metadata_world 7 ''2025-02-18T20:40:31Z'' [[PyStr ''a'', PyNone], [PyScalar 12, PyStr ''b,c'']]) (patch_2025 unpatched)
            input_2025 = Inr (sample_sheet [[PyStr ''a'', PyNone], [PyScalar 12, PyStr ''b,c'']])
      \<and> load_workbook (metadata_world 8 ''2025-02-18T20:40:31Z'' [[PyStr ''a'', PyNone], [PyScalar 12, PyStr ''b,c'']]) (patch_2025 unpatched)
            input_2025 = Inr (sample_sheet [[PyStr ''a'', PyNone], [PyScalar 12, PyStr ''b,c'']])
      \<and> exit_status (main_2025 (metadata_world 7 ''2025-02-18T20:40:31Z'' [[PyStr ''a'', PyNone], [PyScalar 12, PyStr ''b,c'']]) unpatched) = 0
      \<and> exit_status (main_2025 (metadata_world 8 ''2025-02-18T20:40:31Z'' [[PyStr ''a'', PyNone], [PyScalar 12, PyStr ''b,c'']]) unpatched) = 0)
   \<and> written output_2025
        (trace (main_2025 (metadata_world 7 ''2025-02-18T20:40:31Z'' [[PyStr ''a'', PyNone], [PyScalar 12, PyStr ''b,c'']]) unpatched))
       = written output_2025
        (trace (main_2025 (metadata_world 8 ''2025-02-18T20:40:31Z'' [[PyStr ''a'', PyNone], [PyScalar 12, PyStr ''b,c'']]) unpatched))"
proof -
  let ?rs = "[[PyStr ''a'', PyNone], [PyScalar 12, PyStr ''b,c'']]"
  let ?x7 = "metadata_world 7 ''not a timestamp'' ?rs"
  let ?x8 = "metadata_world 8 ''not a timestamp'' ?rs"
  let ?y7 = "metadata_world 7 ''2025-02-18T20:40:31Z'' ?rs"
  let ?y8 = "metadata_world 8 ''2025-02-18T20:40:31Z'' ?rs"
  have p: "sample_lib (fixed ''not a timestamp'') = Inl (Exception ''Invalid datetime value'')
      \<and> (7::nat) \<noteq> 8"
    by code_simp
  have x: "length sample_argv = 3
      \<and> load_workbook ?x7 (patch_xlsx unpatched) (sample_argv ! 1) = Inr (sample_sheet ?rs)
      \<and> load_workbook ?x8 (patch_xlsx unpatched) (sample_argv ! 1) = Inr (sample_sheet ?rs)
      \<and> exit_status (main_xlsx ?x7 unpatched sample_argv) = 0
      \<and> exit_status (main_xlsx ?x8 unpatched sample_argv) = 0"
    by code_simp
  have y: "load_workbook ?y7 (patch_2025 unpatched) input_2025 = Inr (sample_sheet ?rs)
      \<and> load_workbook ?y8 (patch_2025 unpatched) input_2025 = Inr (sample_sheet ?rs)
      \<and> exit_status (main_2025 ?y7 unpatched) = 0
      \<and> exit_status (main_2025 ?y8 unpatched) = 0"
    by code_simp
  have s: "py_str ?x7 = py_str ?x8" "py_str ?y7 = py_str ?y8"
    by (simp_all add: metadata_world_def)
  have r: "rows (sample_sheet ?rs) = rows (sample_sheet ?rs)" by (rule refl)
  note t = fallback_depends_on_clock [where lib = sample_lib and s = "''not a timestamp''"
      and e = "Exception ''Invalid datetime value''" and ?now1.0 = 7 and ?now2.0 = 8
      and depth = 100 and m = "patch_xlsx unpatched"]
  note tx = fallback_depends_on_clock [where m = unpatched and argv = sample_argv
      and ?w1.0 = ?x7 and ?w2.0 = ?x8 and ?ws1.0 = "sample_sheet ?rs"
      and ?ws2.0 = "sample_sheet ?rs"]
  note ty = fallback_depends_on_clock [where m = unpatched
      and ?w1.0 = ?y7 and ?w2.0 = ?y8 and ?ws1.0 = "sample_sheet ?rs"
      and ?ws2.0 = "sample_sheet ?rs"]
  have c1: "patched_from_ISO8601 100 (patch_xlsx unpatched) sample_lib 7 ''not a timestamp''
       \<noteq> patched_from_ISO8601 100 (patch_xlsx unpatched) sample_lib 8 ''not a timestamp''"
    by (rule t [THEN conjunct1, THEN mp]) (rule p)
  have c2: "written (sample_argv ! 2) (trace (main_xlsx ?x7 unpatched sample_argv))
       = written (sample_argv ! 2) (trace (main_xlsx ?x8 unpatched sample_argv))"
    by (rule tx [THEN conjunct2, THEN conjunct1, THEN mp]) (intro conjI; (rule refl | rule s | rule x [THEN conjunct1] | rule x [THEN conjunct2, THEN conjunct1] | rule x [THEN conjunct2, THEN conjunct2, THEN conjunct1] | rule x [THEN conjunct2, THEN conjunct2, THEN conjunct2, THEN conjunct1] | rule x [THEN conjunct2, THEN conjunct2, THEN conjunct2, THEN conjunct2]))
  have c3: "written output_2025 (trace (main_2025 ?y7 unpatched))
       = written output_2025 (trace (main_2025 ?y8 unpatched))"
    by (rule ty [THEN conjunct2, THEN conjunct2, THEN mp]) (intro conjI; (rule refl | rule s | rule y [THEN conjunct1] | rule y [THEN conjunct2, THEN conjunct1] | rule y [THEN conjunct2, THEN conjunct2, THEN conjunct1] | rule y [THEN conjunct2, THEN conjunct2, THEN conjunct2]))
  show ?thesis
    by (rule conjI [OF p], rule conjI [OF c1], rule conjI [OF x], rule conjI [OF c2],
        rule conjI [OF y], rule c3)
qed

text \<open>
  C9 as stated fails in its consequence. With a workbook whose creation date is
  malformed, the parser installed by the argument-taking script returns the clock
  value, \<open>7\<close> in one run and \<open>8\<close> in the other, and both runs have the same effects
  and write the same file: the date is a document property, which the scripts never
  write. The fixed-path script leaves \<^verbatim>\<open>openpyxl.descriptors.base\<close> unpatched, and both
  its runs fail in the same way.
\<close>

theorem clock_value_not_written:
  "patched_from_ISO8601 100 (patch_xlsx unpatched) sample_lib 7 ''not a timestamp'' = Inr 7
   \<and> patched_from_ISO8601 100 (patch_xlsx unpatched) sample_lib 8 ''not a timestamp'' = Inr 8
   \<and> exit_status (main_xlsx (metadata_world 7 ''not a timestamp'' [[PyStr ''a'', PyNone], [PyScalar 12, PyStr ''b,c'']]) unpatched sample_argv) = 0
   \<and> trace (main_xlsx (metadata_world 7 ''not a timestamp'' [[PyStr ''a'', PyNone], [PyScalar 12, PyStr ''b,c'']]) unpatched sample_argv)
       = trace (main_xlsx (metadata_world 8 ''not a timestamp'' [[PyStr ''a'', PyNone], [PyScalar 12, PyStr ''b,c'']]) unpatched sample_argv)
   \<and> written (sample_argv ! 2)
        (trace (main_xlsx (metadata_world 7 ''not a timestamp'' [[PyStr ''a'', PyNone], [PyScalar 12, PyStr ''b,c'']]) unpatched sample_argv))
       = written (sample_argv ! 2)
        (trace (main_xlsx (metadata_world 8 ''not a timestamp'' [[PyStr ''a'', PyNone], [PyScalar 12, PyStr ''b,c'']]) unpatched sample_argv))
   \<and> exit_status (main_2025 (metadata_world 7 ''not a timestamp'' [[PyStr ''a'', PyNone], [PyScalar 12, PyStr ''b,c'']]) unpatched) = 1
   \<and> trace (main_2025 (metadata_world 7 ''not a timestamp'' [[PyStr ''a'', PyNone], [PyScalar 12, PyStr ''b,c'']]) unpatched)
       = trace (main_2025 (metadata_world 8 ''not a timestamp'' [[PyStr ''a'', PyNone], [PyScalar 12, PyStr ''b,c'']]) unpatched)"
  by code_simp


section \<open>Patching and restoring: claims C3 and C4\<close>

text \<open>
  C3: after a run of either tolerant script the two module attributes hold what they
  held before it, on every path: usage error, failure while loading, opening,
  iterating or writing, and success.
\<close>

theorem originals_restored:
  "modules_after (main_xlsx w m argv) = m \<and> modules_after (main_2025 w m) = m"
  by (simp add: main_xlsx_def main_2025_def patch_xlsx_def patch_2025_def Let_def
      split: prod.split option.split)

text \<open>
  C4 at the state in which both attributes hold the library's routine: the fixed-path
  script rebinds \<^verbatim>\<open>openpyxl.utils.datetime.from_ISO8601\<close> only, so that
  \<^verbatim>\<open>openpyxl.descriptors.base.from_ISO8601\<close> still holds the library's routine when the
  workbook is opened; the argument-taking script rebinds both.
\<close>

theorem patch_2025_leaves_descriptors_base:
  "patch_2025 unpatched
     = \<lparr>utils_datetime = Patched_from_ISO8601, descriptors_base = Lib_from_ISO8601\<rparr>
   \<and> patch_xlsx unpatched
     = \<lparr>utils_datetime = Patched_from_ISO8601, descriptors_base = Patched_from_ISO8601\<rparr>"
  by (simp add: patch_2025_def patch_xlsx_def unpatched_def)

section \<open>Records and fields: claims C5, C6, C7 and C10\<close>

text \<open>
  C5, as the code has it. After a successful run of either openpyxl script,
  re-reading the output file gives one record for each row the sheet yields, in
  order and with no header record; record \<open>i\<close> holds the texts of the cells of row
  \<open>i\<close>, so it has as many fields as that row has cells. The reader's field size
  limit must admit every field. The pandas script writes a header record of the
  frame's column labels and then one record for each data row of the frame.
\<close>

theorem one_record_per_row:
  "(length argv = 3 \<and> load_workbook w (patch_xlsx m) (argv ! 1) = Inr ws
      \<and> exit_status (main_xlsx w m argv) = 0
      \<and> fits limit (map (map (field_text (py_str w))) (rows ws))
    \<longrightarrow> (\<exists>recs. reader limit (written (argv ! 2) (trace (main_xlsx w m argv))) = Inr recs
           \<and> length recs = length (rows ws)
           \<and> map length recs = map length (rows ws)
           \<and> recs = map (map (field_text (py_str w))) (rows ws)))
   \<and> (load_workbook w (patch_2025 m) input_2025 = Inr ws
      \<and> exit_status (main_2025 w m) = 0
      \<and> fits limit (map (map (field_text (py_str w))) (rows ws))
    \<longrightarrow> (\<exists>recs. reader limit (written output_2025 (trace (main_2025 w m))) = Inr recs
           \<and> length recs = length (rows ws)
           \<and> map length recs = map length (rows ws)
           \<and> recs = map (map (field_text (py_str w))) (rows ws)))
   \<and> (length argv = 3 \<and> sheet_data pd (argv ! 1) = Inr sheet
      \<and> fst (convert_excel pd argv) = 0
      \<and> (linesep pd = [LF] \<or> linesep pd = [CR, LF])
      \<and> fits limit (columns (frame_of pd sheet)
                      # map (map (field_text (pd_str pd))) (data (frame_of pd sheet)))
    \<longrightarrow> reader limit (written (argv ! 2) (snd (convert_excel pd argv)))
          = Inr (columns (frame_of pd sheet)
                 # map (map (field_text (pd_str pd))) (data (frame_of pd sheet))))"
proof (intro conjI impI)
  assume a: "length argv = 3 \<and> load_workbook w (patch_xlsx m) (argv ! 1) = Inr ws
      \<and> exit_status (main_xlsx w m argv) = 0
      \<and> fits limit (map (map (field_text (py_str w))) (rows ws))"
  then have "reader limit (written (argv ! 2) (trace (main_xlsx w m argv)))
               = Inr (map (map (field_text (py_str w))) (rows ws))"
    using xlsx_output [of argv w m ws limit] by blast
  then show "\<exists>recs. reader limit (written (argv ! 2) (trace (main_xlsx w m argv))) = Inr recs
           \<and> length recs = length (rows ws)
           \<and> map length recs = map length (rows ws)
           \<and> recs = map (map (field_text (py_str w))) (rows ws)"
    by (simp add: comp_def)
next
  assume a: "load_workbook w (patch_2025 m) input_2025 = Inr ws
      \<and> exit_status (main_2025 w m) = 0
      \<and> fits limit (map (map (field_text (py_str w))) (rows ws))"
  then have "reader limit (written output_2025 (trace (main_2025 w m)))
               = Inr (map (map (field_text (py_str w))) (rows ws))"
    using fmr_2025_output [of w m ws limit] by blast
  then show "\<exists>recs. reader limit (written output_2025 (trace (main_2025 w m))) = Inr recs
           \<and> length recs = length (rows ws)
           \<and> map length recs = map length (rows ws)
           \<and> recs = map (map (field_text (py_str w))) (rows ws)"
    by (simp add: comp_def)
next
  assume a: "length argv = 3 \<and> sheet_data pd (argv ! 1) = Inr sheet
      \<and> fst (convert_excel pd argv) = 0
      \<and> (linesep pd = [LF] \<or> linesep pd = [CR, LF])
      \<and> fits limit (columns (frame_of pd sheet)
                      # map (map (field_text (pd_str pd))) (data (frame_of pd sheet)))"
  then show "reader limit (written (argv ! 2) (snd (convert_excel pd argv)))
          = Inr (columns (frame_of pd sheet)
                 # map (map (field_text (pd_str pd))) (data (frame_of pd sheet)))"
    using convert_excel_output [of argv pd sheet limit] by blast
qed

theorem one_record_per_row_witness:
  "(length sample_argv = 3
      \<and> load_workbook (sample_world [[PyStr ''a'', PyNone], [PyScalar 12, PyStr ''b,c'']]) (patch_xlsx unpatched) (sample_argv ! 1)
          = Inr (sample_sheet [[PyStr ''a'', PyNone], [PyScalar 12, PyStr ''b,c'']])
      \<and> exit_status (main_xlsx (sample_world [[PyStr ''a'', PyNone], [PyScalar 12, PyStr ''b,c'']]) unpatched sample_argv) = 0
      \<and> fits (Some field_size_limit)
            (map (map (field_text (py_str (sample_world [[PyStr ''a'', PyNone], [PyScalar 12, PyStr ''b,c'']])))) (rows (sample_sheet [[PyStr ''a'', PyNone], [PyScalar 12, PyStr ''b,c'']]))))
   \<and> reader (Some field_size_limit) (written (sample_argv ! 2)
        (trace (main_xlsx (sample_world [[PyStr ''a'', PyNone], [PyScalar 12, PyStr ''b,c'']]) unpatched sample_argv)))
       = Inr [[''a'', []], [''12'', ''b,c'']]
   \<and> (load_workbook (sample_world [[PyStr ''a'', PyNone], [PyScalar 12, PyStr ''b,c'']]) (patch_2025 unpatched) input_2025
          = Inr (sample_sheet [[PyStr ''a'', PyNone], [PyScalar 12, PyStr ''b,c'']])
      \<and> exit_status (main_2025 (sample_world [[PyStr ''a'', PyNone], [PyScalar 12, PyStr ''b,c'']]) unpatched) = 0
      \<and> fits (Some field_size_limit)
            (map (map (field_text (py_str (sample_world [[PyStr ''a'', PyNone], [PyScalar 12, PyStr ''b,c'']])))) (rows (sample_sheet [[PyStr ''a'', PyNone], [PyScalar 12, PyStr ''b,c'']]))))
   \<and> reader (Some field_size_limit)
        (written output_2025 (trace (main_2025 (sample_world [[PyStr ''a'', PyNone], [PyScalar 12, PyStr ''b,c'']]) unpatched)))
       = Inr [[''a'', []], [''12'', ''b,c'']]
   \<and> (length sample_argv = 3
      \<and> sheet_data (sample_pandas [[PyStr ''h'', PyStr ''k''], [PyStr ''x'', PyNone]] \<lparr>columns = [''h'', ''k''], data = [[PyStr ''x'', PyNone]]\<rparr>) (sample_argv ! 1) = Inr [[PyStr ''h'', PyStr ''k''], [PyStr ''x'', PyNone]]
      \<and> fst (convert_excel (sample_pandas [[PyStr ''h'', PyStr ''k''], [PyStr ''x'', PyNone]] \<lparr>columns = [''h'', ''k''], data = [[PyStr ''x'', PyNone]]\<rparr>) sample_argv) = 0
      \<and> (linesep (sample_pandas [[PyStr ''h'', PyStr ''k''], [PyStr ''x'', PyNone]] \<lparr>columns = [''h'', ''k''], data = [[PyStr ''x'', PyNone]]\<rparr>) = [LF] \<or> linesep (sample_pandas [[PyStr ''h'', PyStr ''k''], [PyStr ''x'', PyNone]] \<lparr>columns = [''h'', ''k''], data = [[PyStr ''x'', PyNone]]\<rparr>) = [CR, LF])
      \<and> fits (Some field_size_limit)
            (columns (frame_of (sample_pandas [[PyStr ''h'', PyStr ''k''], [PyStr ''x'', PyNone]] \<lparr>columns = [''h'', ''k''], data = [[PyStr ''x'', PyNone]]\<rparr>) [[PyStr ''h'', PyStr ''k''], [PyStr ''x'', PyNone]])
             # map (map (field_text (pd_str (sample_pandas [[PyStr ''h'', PyStr ''k''], [PyStr ''x'', PyNone]] \<lparr>columns = [''h'', ''k''], data = [[PyStr ''x'', PyNone]]\<rparr>))))
                 (data (frame_of (sample_pandas [[PyStr ''h'', PyStr ''k''], [PyStr ''x'', PyNone]] \<lparr>columns = [''h'', ''k''], data = [[PyStr ''x'', PyNone]]\<rparr>) [[PyStr ''h'', PyStr ''k''], [PyStr ''x'', PyNone]]))))
   \<and> reader (Some field_size_limit)
        (written (sample_argv ! 2) (snd (convert_excel (sample_pandas [[PyStr ''h'', PyStr ''k''], [PyStr ''x'', PyNone]] \<lparr>columns = [''h'', ''k''], data = [[PyStr ''x'', PyNone]]\<rparr>) sample_argv)))
       = Inr [[''h'', ''k''], [''x'', []]]"
proof -
  let ?rs = "[[PyStr ''a'', PyNone], [PyScalar 12, PyStr ''b,c'']]"
  let ?w = "sample_world ?rs"
  let ?ws = "sample_sheet ?rs"
  let ?sheet = "[[PyStr ''h'', PyStr ''k''], [PyStr ''x'', PyNone]]"
  let ?pd = "sample_pandas ?sheet \<lparr>columns = [''h'', ''k''], data = [[PyStr ''x'', PyNone]]\<rparr>"
  let ?l = "Some field_size_limit"
  have f: "fits ?l (map (map (field_text (py_str ?w))) (rows ?ws))"
    by (simp add: fits_def sample_world_def sample_sheet_def field_size_limit_def str_nat.simps)
  have a1: "length sample_argv = 3
      \<and> load_workbook ?w (patch_xlsx unpatched) (sample_argv ! 1) = Inr ?ws
      \<and> exit_status (main_xlsx ?w unpatched sample_argv) = 0"
    by code_simp
  have a2: "load_workbook ?w (patch_2025 unpatched) input_2025 = Inr ?ws
      \<and> exit_status (main_2025 ?w unpatched) = 0"
    by code_simp
  have a3: "length sample_argv = 3
      \<and> sheet_data ?pd (sample_argv ! 1) = Inr ?sheet
      \<and> fst (convert_excel ?pd sample_argv) = 0"
    by code_simp
  have n: "linesep ?pd = [LF] \<or> linesep ?pd = [CR, LF]"
    by (simp add: sample_pandas_def)
  have g: "fits ?l (columns (frame_of ?pd ?sheet)
             # map (map (field_text (pd_str ?pd))) (data (frame_of ?pd ?sheet)))"
    by (simp add: fits_def sample_pandas_def field_size_limit_def)
  have e: "map (map (field_text (py_str ?w))) (rows ?ws) = [[''a'', []], [''12'', ''b,c'']]"
    by code_simp
  have l: "columns (frame_of ?pd ?sheet)
             # map (map (field_text (pd_str ?pd))) (data (frame_of ?pd ?sheet))
           = [[''h'', ''k''], [''x'', []]]"
    by code_simp
  note t = one_record_per_row [where argv = sample_argv and w = ?w and m = unpatched
      and ws = ?ws and limit = ?l and pd = ?pd and sheet = ?sheet]
  have h1: "length sample_argv = 3
      \<and> load_workbook ?w (patch_xlsx unpatched) (sample_argv ! 1) = Inr ?ws
      \<and> exit_status (main_xlsx ?w unpatched sample_argv) = 0
      \<and> fits ?l (map (map (field_text (py_str ?w))) (rows ?ws))"
    using a1 f by (intro conjI) (rule a1 [THEN conjunct1], rule a1 [THEN conjunct2, THEN conjunct1],
        rule a1 [THEN conjunct2, THEN conjunct2], rule f)
  have h2: "load_workbook ?w (patch_2025 unpatched) input_2025 = Inr ?ws
      \<and> exit_status (main_2025 ?w unpatched) = 0
      \<and> fits ?l (map (map (field_text (py_str ?w))) (rows ?ws))"
    by (intro conjI) (rule a2 [THEN conjunct1], rule a2 [THEN conjunct2], rule f)
  have h3: "length sample_argv = 3
      \<and> sheet_data ?pd (sample_argv ! 1) = Inr ?sheet
      \<and> fst (convert_excel ?pd sample_argv) = 0
      \<and> (linesep ?pd = [LF] \<or> linesep ?pd = [CR, LF])
      \<and> fits ?l (columns (frame_of ?pd ?sheet)
             # map (map (field_text (pd_str ?pd))) (data (frame_of ?pd ?sheet)))"
    by (intro conjI) (rule a3 [THEN conjunct1], rule a3 [THEN conjunct2, THEN conjunct1],
        rule a3 [THEN conjunct2, THEN conjunct2], rule n, rule g)
  have "\<exists>recs. reader ?l (written (sample_argv ! 2) (trace (main_xlsx ?w unpatched sample_argv)))
           = Inr recs \<and> length recs = length (rows ?ws)
           \<and> map length recs = map length (rows ?ws)
           \<and> recs = map (map (field_text (py_str ?w))) (rows ?ws)"
    by (rule t [THEN conjunct1, THEN mp]) (rule h1)
  then have c1: "reader ?l (written (sample_argv ! 2) (trace (main_xlsx ?w unpatched sample_argv)))
           = Inr [[''a'', []], [''12'', ''b,c'']]"
    unfolding e by (elim exE conjE) (simp only:)
  have "\<exists>recs. reader ?l (written output_2025 (trace (main_2025 ?w unpatched)))
           = Inr recs \<and> length recs = length (rows ?ws)
           \<and> map length recs = map length (rows ?ws)
           \<and> recs = map (map (field_text (py_str ?w))) (rows ?ws)"
    by (rule t [THEN conjunct2, THEN conjunct1, THEN mp]) (rule h2)
  then have c2: "reader ?l (written output_2025 (trace (main_2025 ?w unpatched)))
           = Inr [[''a'', []], [''12'', ''b,c'']]"
    unfolding e by (elim exE conjE) (simp only:)
  have "reader ?l (written (sample_argv ! 2) (snd (convert_excel ?pd sample_argv)))
          = Inr (columns (frame_of ?pd ?sheet)
                 # map (map (field_text (pd_str ?pd))) (data (frame_of ?pd ?sheet)))"
    by (rule t [THEN conjunct2, THEN conjunct2, THEN mp]) (rule h3)
  then have c3: "reader ?l (written (sample_argv ! 2) (snd (convert_excel ?pd sample_argv)))
          = Inr [[''h'', ''k''], [''x'', []]]"
    unfolding l .
  show ?thesis
    by (rule conjI [OF h1], rule conjI [OF c1], rule conjI [OF h2], rule conjI [OF c2],
        rule conjI [OF h3], rule c3)
qed

text \<open>
  C5 as stated fails. For the pandas script: on a sheet whose only row is a blank
  cell and the text \<open>x\<close>, pandas builds a frame with the labels \<^verbatim>\<open>Unnamed: 0\<close> and
  \<open>x\<close> and no data row, and the file holds that header record, not a record with an
  empty first field. For the openpyxl scripts: a sheet of two columns whose first
  row yields one cell gives a first record of one field.
\<close>

theorem pandas_header_record:
  "fst (convert_excel (sample_pandas [[PyNone, PyStr ''x'']] \<lparr>columns = [''Unnamed: 0'', ''x''], data = []\<rparr>) sample_argv) = 0
   \<and> reader None (written (sample_argv ! 2)
        (snd (convert_excel (sample_pandas [[PyNone, PyStr ''x'']] \<lparr>columns = [''Unnamed: 0'', ''x''], data = []\<rparr>) sample_argv)))
       = Inr [[''Unnamed: 0'', ''x'']]
   \<and> reader None (written (sample_argv ! 2)
        (snd (convert_excel (sample_pandas [[PyNone, PyStr ''x'']] \<lparr>columns = [''Unnamed: 0'', ''x''], data = []\<rparr>) sample_argv)))
       \<noteq> Inr (map (map (field_text str_nat)) [[PyNone, PyStr ''x'']])
   \<and> map (map (field_text str_nat)) [[PyNone, PyStr ''x'']] = [[[], ''x'']]
   \<and> max_column (sample_sheet [[PyStr ''a''], [PyStr ''b'', PyStr ''c'']]) = Some 2
   \<and> exit_status (main_xlsx (sample_world [[PyStr ''a''], [PyStr ''b'', PyStr ''c'']]) unpatched sample_argv) = 0
   \<and> reader None (written (sample_argv ! 2)
        (trace (main_xlsx (sample_world [[PyStr ''a''], [PyStr ''b'', PyStr ''c'']]) unpatched sample_argv)))
       = Inr [[''a''], [''b'', ''c'']]"
  by code_simp

text \<open>
  C6, as the code has it. When every cell of the sheet is a string and the reader's
  field size limit admits each of them, a successful run of either openpyxl script
  leaves a file that reads back as the same table of strings.
\<close>

theorem strings_round_trip:
  "(length argv = 3 \<and> load_workbook w (patch_xlsx m) (argv ! 1) = Inr ws
      \<and> rows ws = map (map PyStr) table \<and> exit_status (main_xlsx w m argv) = 0
      \<and> fits limit table
    \<longrightarrow> reader limit (written (argv ! 2) (trace (main_xlsx w m argv))) = Inr table)
   \<and> (load_workbook w (patch_2025 m) input_2025 = Inr ws
      \<and> rows ws = map (map PyStr) table \<and> exit_status (main_2025 w m) = 0
      \<and> fits limit table
    \<longrightarrow> reader limit (written output_2025 (trace (main_2025 w m))) = Inr table)"
proof -
  have t: "map (map (field_text (py_str w))) (map (map PyStr) table) = table"
    by (simp add: comp_def map_idI)
  show ?thesis
    using xlsx_output [of argv w m ws limit] fmr_2025_output [of w m ws limit] t by auto
qed

theorem strings_round_trip_witness:
  "(length sample_argv = 3
      \<and> load_workbook (sample_world (map (map PyStr) [[''name'', ''rent''], [''Austin, TX'', ''1200'']])) (patch_xlsx unpatched)
            (sample_argv ! 1)
          = Inr (sample_sheet (map (map PyStr) [[''name'', ''rent''], [''Austin, TX'', ''1200'']]))
      \<and> rows (sample_sheet (map (map PyStr) [[''name'', ''rent''], [''Austin, TX'', ''1200'']])) = map (map PyStr) [[''name'', ''rent''], [''Austin, TX'', ''1200'']]
      \<and> exit_status (main_xlsx (sample_world (map (map PyStr) [[''name'', ''rent''], [''Austin, TX'', ''1200'']])) unpatched sample_argv) = 0
      \<and> fits (Some field_size_limit) [[''name'', ''rent''], [''Austin, TX'', ''1200'']])
   \<and> reader (Some field_size_limit) (written (sample_argv ! 2)
        (trace (main_xlsx (sample_world (map (map PyStr) [[''name'', ''rent''], [''Austin, TX'', ''1200'']])) unpatched sample_argv)))
       = Inr [[''name'', ''rent''], [''Austin, TX'', ''1200'']]
   \<and> (load_workbook (sample_world (map (map PyStr) [[''name'', ''rent''], [''Austin, TX'', ''1200'']])) (patch_2025 unpatched) input_2025
          = Inr (sample_sheet (map (map PyStr) [[''name'', ''rent''], [''Austin, TX'', ''1200'']]))
      \<and> rows (sample_sheet (map (map PyStr) [[''name'', ''rent''], [''Austin, TX'', ''1200'']])) = map (map PyStr) [[''name'', ''rent''], [''Austin, TX'', ''1200'']]
      \<and> exit_status (main_2025 (sample_world (map (map PyStr) [[''name'', ''rent''], [''Austin, TX'', ''1200'']])) unpatched) = 0
      \<and> fits (Some field_size_limit) [[''name'', ''rent''], [''Austin, TX'', ''1200'']])
   \<and> reader (Some field_size_limit) (written output_2025
        (trace (main_2025 (sample_world (map (map PyStr) [[''name'', ''rent''], [''Austin, TX'', ''1200'']])) unpatched)))
       = Inr [[''name'', ''rent''], [''Austin, TX'', ''1200'']]"
proof -
  let ?t = "[[''name'', ''rent''], [''Austin, TX'', ''1200'']]"
  let ?w = "sample_world (map (map PyStr) ?t)"
  let ?ws = "sample_sheet (map (map PyStr) ?t)"
  let ?l = "Some field_size_limit"
  have f: "fits ?l ?t"
    by (simp add: fits_def field_size_limit_def)
  have r: "rows ?ws = map (map PyStr) ?t"
    by (simp add: sample_sheet_def)
  have a1: "length sample_argv = 3
      \<and> load_workbook ?w (patch_xlsx unpatched) (sample_argv ! 1) = Inr ?ws
      \<and> exit_status (main_xlsx ?w unpatched sample_argv) = 0"
    by code_simp
  have a2: "load_workbook ?w (patch_2025 unpatched) input_2025 = Inr ?ws
      \<and> exit_status (main_2025 ?w unpatched) = 0"
    by code_simp
  have h1: "length sample_argv = 3
      \<and> load_workbook ?w (patch_xlsx unpatched) (sample_argv ! 1) = Inr ?ws
      \<and> rows ?ws = map (map PyStr) ?t
      \<and> exit_status (main_xlsx ?w unpatched sample_argv) = 0
      \<and> fits ?l ?t"
    by (intro conjI) (rule a1 [THEN conjunct1], rule a1 [THEN conjunct2, THEN conjunct1],
        rule r, rule a1 [THEN conjunct2, THEN conjunct2], rule f)
  have h2: "load_workbook ?w (patch_2025 unpatched) input_2025 = Inr ?ws
      \<and> rows ?ws = map (map PyStr) ?t
      \<and> exit_status (main_2025 ?w unpatched) = 0
      \<and> fits ?l ?t"
    by (intro conjI) (rule a2 [THEN conjunct1], rule r, rule a2 [THEN conjunct2], rule f)
  note t = strings_round_trip [where argv = sample_argv and w = ?w and m = unpatched
      and ws = ?ws and table = ?t and limit = ?l]
  have c1: "reader ?l (written (sample_argv ! 2) (trace (main_xlsx ?w unpatched sample_argv)))
       = Inr ?t"
    by (rule t [THEN conjunct1, THEN mp]) (rule h1)
  have c2: "reader ?l (written output_2025 (trace (main_2025 ?w unpatched))) = Inr ?t"
    by (rule t [THEN conjunct2, THEN mp]) (rule h2)
  show ?thesis
    by (rule conjI [OF h1], rule conjI [OF c1], rule conjI [OF h2], rule c2)
qed

text \<open>
  C6 as stated fails. For the pandas script: on a sheet of strings whose header row
  repeats the label \<open>id\<close>, pandas renames the second label \<^verbatim>\<open>id.1\<close>, and the file
  reads back with that label. For every script: a cell one character longer than
  the reader's default field size limit is written, and the reader then raises
  instead of returning the table.
\<close>

theorem pandas_renames_repeated_label:
  "fst (convert_excel (sample_pandas (map (map PyStr) [[''id'', ''id''], [''x'', ''y'']]) \<lparr>columns = [''id'', ''id.1''], data = [[PyStr ''x'', PyStr ''y'']]\<rparr>) sample_argv) = 0
   \<and> reader (Some field_size_limit) (written (sample_argv ! 2)
        (snd (convert_excel (sample_pandas (map (map PyStr) [[''id'', ''id''], [''x'', ''y'']]) \<lparr>columns = [''id'', ''id.1''], data = [[PyStr ''x'', PyStr ''y'']]\<rparr>) sample_argv)))
       = Inr [[''id'', ''id.1''], [''x'', ''y'']]
   \<and> reader (Some field_size_limit) (written (sample_argv ! 2)
        (snd (convert_excel (sample_pandas (map (map PyStr) [[''id'', ''id''], [''x'', ''y'']]) \<lparr>columns = [''id'', ''id.1''], data = [[PyStr ''x'', PyStr ''y'']]\<rparr>) sample_argv)))
       \<noteq> Inr [[''id'', ''id''], [''x'', ''y'']]
   \<and> exit_status (main_xlsx (sample_world [[PyStr long_field]]) unpatched sample_argv) = 0
   \<and> length long_field = 131073
   \<and> reader (Some field_size_limit) (written (sample_argv ! 2)
        (trace (main_xlsx (sample_world [[PyStr long_field]]) unpatched sample_argv)))
       = Inl (Exception ''field larger than field limit (131072)'')"
proof -
  let ?sheet = "(map (map PyStr) [[''id'', ''id''], [''x'', ''y'']])"
  let ?pd = "sample_pandas ?sheet \<lparr>columns = [''id'', ''id.1''], data = [[PyStr ''x'', PyStr ''y'']]\<rparr>"
  let ?w = "sample_world [[PyStr long_field]]"
  have b: "length sample_argv = 3" "sheet_data ?pd (sample_argv ! 1) = Inr ?sheet"
    "linesep ?pd = [LF] \<or> linesep ?pd = [CR, LF]"
    by (simp_all add: sample_argv_def sample_pandas_def)
  have p1: "fst (convert_excel ?pd sample_argv) = 0"
    by code_simp
  have g: "fits (Some field_size_limit) (columns (frame_of ?pd ?sheet)
             # map (map (field_text (pd_str ?pd))) (data (frame_of ?pd ?sheet)))"
    by (simp add: fits_def sample_pandas_def field_size_limit_def)
  have l: "columns (frame_of ?pd ?sheet)
             # map (map (field_text (pd_str ?pd))) (data (frame_of ?pd ?sheet))
           = [[''id'', ''id.1''], [''x'', ''y'']]"
    by (simp add: sample_pandas_def)
  have p2: "reader (Some field_size_limit)
           (written (sample_argv ! 2) (snd (convert_excel ?pd sample_argv)))
          = Inr [[''id'', ''id.1''], [''x'', ''y'']]"
    using convert_excel_output [OF b(1) b(2) p1 b(3) g] unfolding l .
  have p3: "reader (Some field_size_limit)
           (written (sample_argv ! 2) (snd (convert_excel ?pd sample_argv)))
          \<noteq> Inr [[''id'', ''id''], [''x'', ''y'']]"
    unfolding p2 by simp
  have a: "length sample_argv = 3"
    "load_workbook ?w (patch_xlsx unpatched) (sample_argv ! 1) = Inr (sample_sheet [[PyStr long_field]])"
    by (simp_all add: sample_argv_def sample_world_def)
  have x: "exit_status (main_xlsx ?w unpatched sample_argv) = 0"
    by (simp add: main_xlsx_def try_xlsx_def sample_argv_def sample_world_def sample_sheet_def
        Let_def)
  have n: "length long_field = 131073"
    by (simp add: long_field_def field_size_limit_def)
  have "written (sample_argv ! 2) (trace (main_xlsx ?w unpatched sample_argv))
          = writerow str_nat (row_xlsx [PyStr long_field])"
    using xlsx_written [OF a x] by (simp add: sample_sheet_def sample_world_def)
  then have r: "reader (Some field_size_limit)
        (written (sample_argv ! 2) (trace (main_xlsx ?w unpatched sample_argv)))
       = Inl (Exception ''field larger than field limit (131072)'')"
    using reader_long_field [of str_nat] by (simp add: row_xlsx_def str_nat_limit)
  show ?thesis
    by (rule conjI [OF p1], rule conjI [OF p2], rule conjI [OF p3], rule conjI [OF x],
        rule conjI [OF n], rule r)
qed

text \<open>
  C7: a row written by either tolerant script reads back as one record in which a
  missing cell is the empty field and every other cell is its \<^verbatim>\<open>str()\<close> text; the
  text \<^verbatim>\<open>None\<close>, which \<^verbatim>\<open>str()\<close> gives for a missing cell, is never written for it.
  The record is decoded with the reader's field size limit lifted.
\<close>

theorem missing_cells_are_empty_fields:
  "reader None (writerow to_str (row_xlsx row))
     = Inr [map (\<lambda>cell. if cell = PyNone then [] else str to_str cell) row]
   \<and> reader None (writerow to_str (row_2025 to_str row))
     = Inr [map (\<lambda>cell. if cell = PyNone then [] else str to_str cell) row]"
  by (simp only: reader_writerow texts_xlsx texts_2025)

text \<open>
  C10: for every row, the list built by the fixed-path script and the list built by
  the argument-taking script are written as the same record.
\<close>

theorem renderings_agree:
  "writerow to_str (row_2025 to_str row) = writerow to_str (row_xlsx row)"
  by (rule writerow_texts) (simp only: texts_xlsx texts_2025)

section \<open>Usage errors: claim C8\<close>

text \<open>
  C8: with an argument list of any length but three (the script name and two
  arguments), each argument-taking script prints its usage line, exits with status 1
  and has no other effect: nothing is loaded, opened or written, and the module
  attributes are unchanged.
\<close>

theorem wrong_argument_count:
  assumes "length argv \<noteq> 3"
  shows "main_xlsx w m argv = \<lparr>exit_status = 1, trace = [Print usage_xlsx], modules_after = m\<rparr>
         \<and> convert_excel pd argv = (1, [Print usage_excel])
         \<and> filter touches_files (trace (main_xlsx w m argv)) = []
         \<and> filter touches_files (snd (convert_excel pd argv)) = []"
  using assms by (simp add: main_xlsx_def convert_excel_def)

theorem wrong_argument_count_witness:
  "length [''convert.py'', ''in.xlsx''] \<noteq> 3
   \<and> main_xlsx (sample_world []) unpatched [''convert.py'', ''in.xlsx'']
       = \<lparr>exit_status = 1, trace = [Print usage_xlsx], modules_after = unpatched\<rparr>
   \<and> convert_excel (sample_pandas [] \<lparr>columns = [], data = []\<rparr>) [''convert.py'', ''in.xlsx'']
       = (1, [Print usage_excel])"
  using wrong_argument_count [of "[''convert.py'', ''in.xlsx'']" "sample_world []" unpatched
      "sample_pandas [] \<lparr>columns = [], data = []\<rparr>"]
  by simp

end
